theory Spec2Isabelle
  imports Complex_Main
begin

section \<open>Conventions\<close>

text \<open>
  The Python sources compute with \<open>float\<close> and \<open>int\<close>. Floats are modelled by the
  real numbers (exact arithmetic, no NaN, no infinities, no rounding error); Python's
  unbounded integers by \<open>int\<close>. Every statement below is about this idealisation.
  Exceptions are values: a function that can raise returns a sum whose left injection is
  the exception; a loop that may run forever is a partial function into \<open>option\<close>,
  where \<open>None\<close> is "does not return".

  Of Python's exceptions the model has the three the code itself can raise
  (\<open>KeyError\<close> with the text of its key), \<open>LibraryError\<close> for any exception derived from
  \<open>Exception\<close> that the solver library raises (with its message), and
  \<open>KeyboardInterrupt\<close>, which is not derived from \<open>Exception\<close>.
\<close>

datatype py_exn =
  ZeroDivisionError
| IndexError
| KeyError string
| LibraryError string
| KeyboardInterrupt

definition truediv :: "real \<Rightarrow> real \<Rightarrow> py_exn + real" where
  \<comment> \<open>Python's \<open>a / b\<close> on floats: raises on a zero divisor.\<close>
  "truediv a b = (if b = 0 then Inl ZeroDivisionError else Inr (a / b))"

definition py_round_half_even :: "real \<Rightarrow> int" where
  \<comment> \<open>Python's rounding rule: to the nearest integer, a tie goes to the even neighbour.\<close>
  "py_round_half_even y =
     (let f = \<lfloor>y\<rfloor>; d = y - of_int f
      in if d < 1 / 2 then f else if 1 / 2 < d then f + 1 else if even f then f else f + 1)"

definition round2 :: "real \<Rightarrow> real" where
  \<comment> \<open>\<open>round(x, 2)\<close>: two decimal places.\<close>
  "round2 x = of_int (py_round_half_even (x * 100)) / 100"

definition py_int :: "real \<Rightarrow> int" where
  \<comment> \<open>\<open>int(x)\<close> on a float: truncation toward zero.\<close>
  "py_int x = (if 0 \<le> x then \<lfloor>x\<rfloor> else \<lceil>x\<rceil>)"


section \<open>productcreator.py: the candidate space generator\<close>

subsection \<open>Axis ranges\<close>

text \<open>
  The four generators \<open>generate_price_range\<close>, \<open>generate_weight_range\<close>,
  \<open>generate_size_range\<close> and \<open>generate_shipping_costs\<close> are the same loop:
  \<^verbatim>\<open>
    xs = []; current = min
    while current <= max:
        xs.append(round(current, 2)); current += step
    return xs
  \<close>
  \<open>axis_loop\<close> is that \<open>while\<close> loop, started from any \<open>current\<close> and list.
\<close>

partial_function (option) axis_loop :: "real \<Rightarrow> real \<Rightarrow> real \<Rightarrow> real list \<Rightarrow> real list option" where
  "axis_loop current mx step xs =
     (if current \<le> mx then axis_loop (current + step) mx step (xs @ [round2 current])
      else Some xs)"

definition generate_price_range :: "real \<Rightarrow> real \<Rightarrow> real \<Rightarrow> real list option" where
  "generate_price_range min_price max_price step = axis_loop min_price max_price step []"

definition generate_weight_range :: "real \<Rightarrow> real \<Rightarrow> real \<Rightarrow> real list option" where
  "generate_weight_range min_weight max_weight step = axis_loop min_weight max_weight step []"

definition generate_size_range :: "real \<Rightarrow> real \<Rightarrow> real \<Rightarrow> real list option" where
  "generate_size_range min_size max_size step = axis_loop min_size max_size step []"

definition generate_shipping_costs :: "real \<Rightarrow> real \<Rightarrow> real \<Rightarrow> real list option" where
  "generate_shipping_costs freight_min freight_max freight_step =
     axis_loop freight_min freight_max freight_step []"



subsection \<open>The plausibility filter\<close>

definition density_of :: "real \<Rightarrow> real \<Rightarrow> py_exn + real" where
  \<comment> \<open>\<open>density = weight_kg / volume_liters if volume_liters > 0 else 0\<close>, from grams and cm3.\<close>
  "density_of weight_g size_cm3 =
     (let weight_kg = weight_g / 1000; volume_liters = size_cm3 / 1000
      in if volume_liters > 0 then truediv weight_kg volume_liters else Inr 0)"

definition value_per_kg_of :: "real \<Rightarrow> real \<Rightarrow> py_exn + real" where
  \<comment> \<open>\<open>value_per_kg = price / weight_kg if weight_kg > 0 else 0\<close>.\<close>
  "value_per_kg_of price weight_g =
     (let weight_kg = weight_g / 1000
      in if weight_kg > 0 then truediv price weight_kg else Inr 0)"

definition is_realistic_combination ::
  "real \<Rightarrow> real \<Rightarrow> real \<Rightarrow> real \<Rightarrow> real \<Rightarrow> py_exn + bool" where
  "is_realistic_combination price weight_g size_cm3 density_min density_max =
     (let weight_kg = weight_g / 1000 in
      case density_of weight_g size_cm3 of
        Inl e \<Rightarrow> Inl e
      | Inr density \<Rightarrow>
          if density < density_min \<or> density > density_max then Inr False
          else (case value_per_kg_of price weight_g of
            Inl e \<Rightarrow> Inl e
          | Inr value_per_kg \<Rightarrow>
              if price < 10 \<and> weight_kg > 5 then Inr False
              else if price < 5 \<and> size_cm3 > 10000 then Inr False
              else if (100 \<le> price \<and> price \<le> 1000) \<and> value_per_kg < 10 then Inr False
              else if price \<ge> 1000 \<and> value_per_kg < 50 then Inr False
              else if price \<ge> 1000 \<and> size_cm3 > 30000 then Inr False
              else if size_cm3 > 20000 \<and> weight_kg < 1 / 2 then Inr False
              else if weight_kg > 10 \<and> size_cm3 < 1000 \<and> price < 100 then Inr False
              else Inr True))"

subsection \<open>Business rule tables (config_models.py)\<close>

record markup_tier =
  min_cost :: real
  max_cost :: real
  markup_multiplier :: real

record demand_tier =
  min_price :: real
  max_price :: real
  base_demand_monthly :: real
  demand_multiplier :: real
  max_demand_monthly :: real

text \<open>
  Of \<open>AppConfig\<close> the generator reads the two tier lists only; the filter presets, the
  shipping and optimisation defaults and the file paths are left out.
\<close>

record app_config =
  markup_tiers :: "markup_tier list"
  demand_tiers :: "demand_tier list"

subsection \<open>Retail price and base demand\<close>

definition estimate_retail_price :: "real \<Rightarrow> app_config \<Rightarrow> py_exn + real" where
  \<comment> \<open>The first tier whose bracket holds the price; else the last tier, and
      \<open>markup_tiers[-1]\<close> raises on an empty list.\<close>
  "estimate_retail_price wholesale cfg =
     (case find (\<lambda>tier. min_cost tier \<le> wholesale \<and> wholesale < max_cost tier) (markup_tiers cfg) of
        Some tier \<Rightarrow> Inr (wholesale * markup_multiplier tier)
      | None \<Rightarrow>
          (if markup_tiers cfg = [] then Inl IndexError
           else Inr (wholesale * markup_multiplier (last (markup_tiers cfg)))))"

definition get_demand_tier :: "real \<Rightarrow> app_config \<Rightarrow> demand_tier option" where
  "get_demand_tier price cfg =
     find (\<lambda>tier. min_price tier \<le> price \<and> price < max_price tier) (demand_tiers cfg)"

definition estimate_base_demand :: "real \<Rightarrow> real \<Rightarrow> real \<Rightarrow> app_config \<Rightarrow> real" where
  "estimate_base_demand wholesale size_cm3 weight_g cfg =
     (let weight_kg = weight_g / 1000 in
      case get_demand_tier wholesale cfg of
        None \<Rightarrow> 5
      | Some tier \<Rightarrow>
          (let base = base_demand_monthly tier;
               base = base * demand_multiplier tier;
               base = (if size_cm3 > 20000 then base * (5 / 10) else base);
               base = (if weight_kg > 20 then base * (7 / 10) else base);
               max_demand = max_demand_monthly tier
           in min (max 1 base) max_demand))"

subsection \<open>Candidate generation\<close>

record generation_params =
  price_min :: real
  price_max :: real
  price_step :: real
  weight_min :: real
  weight_max :: real
  weight_step :: real
  size_min :: real
  size_max :: real
  size_step :: real
  freight_min :: real
  freight_max :: real
  freight_step :: real
  density_min :: real
  density_max :: real
  max_candidates :: "int option"

record product_candidate =
  wholesale_price :: real
  retail_price :: real
  weight_g :: real
  size_cm3 :: real
  shipping_cost_multiplier :: real
  base_demand :: real

fun for_each :: "'a list \<Rightarrow> ('a \<Rightarrow> 's \<Rightarrow> 'e + 's) \<Rightarrow> 's \<Rightarrow> 'e + 's" where
  \<comment> \<open>A \<open>for\<close> loop over a list whose body updates a state and may raise.\<close>
  "for_each [] body s = Inr s"
| "for_each (x # xs) body s =
     (case body x s of Inl e \<Rightarrow> Inl e | Inr s' \<Rightarrow> for_each xs body s')"

definition candidate_body ::
  "generation_params \<Rightarrow> app_config \<Rightarrow> real \<Rightarrow> real \<Rightarrow> real \<Rightarrow> real \<Rightarrow>
   product_candidate list \<Rightarrow> py_exn + product_candidate list" where
  \<comment> \<open>The body of the innermost loop of \<open>generate_all_product_candidates\<close>.\<close>
  "candidate_body params cfg price weight sz shipping_mult candidates =
     (case is_realistic_combination price weight sz (density_min params) (density_max params) of
        Inl e \<Rightarrow> Inl e
      | Inr realistic \<Rightarrow>
          if \<not> realistic then Inr candidates
          else (case estimate_retail_price price cfg of
            Inl e \<Rightarrow> Inl e
          | Inr retail \<Rightarrow>
              Inr (candidates @
                [\<lparr>wholesale_price = price, retail_price = retail, weight_g = weight,
                  size_cm3 = sz, shipping_cost_multiplier = shipping_mult,
                  base_demand = estimate_base_demand price sz weight cfg\<rparr>])))"

definition py_prefix :: "int \<Rightarrow> 'a list \<Rightarrow> 'a list" where
  \<comment> \<open>The slice \<open>xs[:n]\<close>: a negative \<open>n\<close> counts from the end.\<close>
  "py_prefix n xs = (if 0 \<le> n then take (nat n) xs else take (nat (int (length xs) + n)) xs)"

definition profit_potential :: "product_candidate \<Rightarrow> real" where
  "profit_potential c = (retail_price c - wholesale_price c) * base_demand c"

definition truncate_candidates :: "int option \<Rightarrow> product_candidate list \<Rightarrow> product_candidate list" where
  \<comment> \<open>\<open>if max_candidates and len(candidates) > max_candidates\<close>: a stable sort by
      descending profit potential, then the slice.\<close>
  "truncate_candidates limit candidates =
     (case limit of
        None \<Rightarrow> candidates
      | Some n \<Rightarrow>
          if n \<noteq> 0 \<and> int (length candidates) > n
          then py_prefix n (sort_key (\<lambda>c. - profit_potential c) candidates)
          else candidates)"

definition generate_all_product_candidates ::
  "generation_params \<Rightarrow> app_config \<Rightarrow> (py_exn + product_candidate list) option" where
  "generate_all_product_candidates params cfg =
     (case generate_price_range (price_min params) (price_max params) (price_step params) of
        None \<Rightarrow> None
      | Some prices \<Rightarrow>
     (case generate_weight_range (weight_min params) (weight_max params) (weight_step params) of
        None \<Rightarrow> None
      | Some weights \<Rightarrow>
     (case generate_size_range (size_min params) (size_max params) (size_step params) of
        None \<Rightarrow> None
      | Some sizes \<Rightarrow>
     (case generate_shipping_costs (freight_min params) (freight_max params) (freight_step params) of
        None \<Rightarrow> None
      | Some shipping_costs \<Rightarrow>
          Some (case for_each prices (\<lambda>price.
                       for_each weights (\<lambda>weight.
                         for_each sizes (\<lambda>sz.
                           for_each shipping_costs (\<lambda>shipping_mult.
                             candidate_body params cfg price weight sz shipping_mult)))) [] of
                  Inl e \<Rightarrow> Inl e
                | Inr candidates \<Rightarrow> Inr (truncate_candidates (max_candidates params) candidates))))))"


definition demand_derived :: "app_config \<Rightarrow> product_candidate \<Rightarrow> bool" where
  \<comment> \<open>The candidate's demand is the estimate for its own price, size and weight.\<close>
  "demand_derived cfg c \<longleftrightarrow>
     base_demand c = estimate_base_demand (wholesale_price c) (size_cm3 c) (weight_g c) cfg"

text \<open>A smallest run of the generator: one point on every axis, one tier of each kind.\<close>

definition unit_params :: generation_params where
  "unit_params = \<lparr>price_min = 1, price_max = 1, price_step = 1,
     weight_min = 1000, weight_max = 1000, weight_step = 1,
     size_min = 1000, size_max = 1000, size_step = 1,
     freight_min = 1, freight_max = 1, freight_step = 1,
     density_min = 1 / 100, density_max = 10, max_candidates = None\<rparr>"

definition one_tier_config :: "real \<Rightarrow> app_config" where
  "one_tier_config cap = \<lparr>markup_tiers = [\<lparr>min_cost = 0, max_cost = 50, markup_multiplier = 3\<rparr>],
     demand_tiers = [\<lparr>min_price = 0, max_price = 50, base_demand_monthly = 320,
       demand_multiplier = 1, max_demand_monthly = cap\<rparr>]\<rparr>"


section \<open>spcplan.py: the purchase order optimizer\<close>

subsection \<open>Configuration classes\<close>

record seasonal_factors =
  factors :: "int \<rightharpoonup> real"

definition default_factors :: "int \<rightharpoonup> real" where
  "default_factors =
     [1 \<mapsto> 8 / 10, 2 \<mapsto> 7 / 10, 3 \<mapsto> 9 / 10, 4 \<mapsto> 95 / 100, 5 \<mapsto> 1, 6 \<mapsto> 1,
      7 \<mapsto> 105 / 100, 8 \<mapsto> 11 / 10, 9 \<mapsto> 115 / 100, 10 \<mapsto> 13 / 10, 11 \<mapsto> 15 / 10,
      12 \<mapsto> 16 / 10]"

definition get :: "seasonal_factors \<Rightarrow> int \<Rightarrow> real" where
  \<comment> \<open>\<open>SeasonalFactors.get\<close>: \<open>self.factors.get(month, 1.0)\<close>.\<close>
  "get sf month = (case factors sf month of None \<Rightarrow> 1 | Some f \<Rightarrow> f)"

record demand_forecast =
  base_demand :: real
  seasonal_factors :: seasonal_factors
  trend_factor :: real
  demand_buffer :: real

definition float_pow :: "real \<Rightarrow> int \<Rightarrow> py_exn + real" where
  \<comment> \<open>\<open>x ** k\<close> for a float and an int: a negative power of zero raises.\<close>
  "float_pow x k =
     (if 0 \<le> k then Inr (x ^ nat k)
      else if x = 0 then Inl ZeroDivisionError
      else Inr (1 / x ^ nat (- k)))"

definition forecast_month :: "demand_forecast \<Rightarrow> int \<Rightarrow> py_exn + real" where
  "forecast_month df month =
     (let seasonal = get (seasonal_factors df) month in
      case float_pow (trend_factor df) (month - 1) of
        Inl e \<Rightarrow> Inl e
      | Inr trend \<Rightarrow> Inr (base_demand df * seasonal * trend))"

text \<open>The field \<open>id\<close> of \<open>Product\<close> is \<open>product_id\<close> here.\<close>

record product =
  product_id :: string
  name :: string
  wholesale_price :: real
  retail_price :: real
  size_cm3 :: real
  weight_g :: real
  category :: string
  demand_forecast :: demand_forecast
  bulk_discount_threshold :: int
  bulk_discount_rate :: real

definition product_margin :: "product \<Rightarrow> real" where
  \<comment> \<open>The property \<open>Product.margin\<close>; the order dictionaries have a key \<open>margin\<close> too.\<close>
  "product_margin p = retail_price p - wholesale_price p"

record shipping_option =
  name :: string
  cost_per_kg :: real
  cost_per_m3 :: real
  max_weight_kg :: real
  max_volume_m3 :: real
  crosses_border :: bool
  customs_duty_rate :: real
  days_transit :: int

record optimizer_config =
  planning_months :: int
  budget_per_month :: real
  warehouse_capacity_m3 :: real
  shipping :: shipping_option
  solver_time_limit_seconds :: int
  solver_type :: string
  demand_multiplier :: real
  seasonal_factors :: "(int \<rightharpoonup> real) option"

subsection \<open>The solver library, as the optimizer sees it\<close>

text \<open>
  The MILP solver (OR-Tools \<open>pywraplp\<close>) is not part of the repository. The optimizer
  builds linear expressions over variable handles and hands them to the solver object;
  each call into the library either returns or raises. \<open>solver_api\<close> is that interface
  over an arbitrary solver state \<open>'s\<close>; the theorems about \<open>optimize\<close> hold for every
  behaviour of the library.
\<close>

type_synonym var = nat

datatype lin_expr =
  Num real
| Times real var
| Plus lin_expr lin_expr
| Scaled real lin_expr
| Neg lin_expr

fun eval :: "(var \<Rightarrow> real) \<Rightarrow> lin_expr \<Rightarrow> real" where
  "eval a (Num c) = c"
| "eval a (Times c v) = c * a v"
| "eval a (Plus e f) = eval a e + eval a f"
| "eval a (Scaled c e) = c * eval a e"
| "eval a (Neg e) = - eval a e"

record lin_constraint =
  lhs :: lin_expr
  upper :: real

definition holds :: "(var \<Rightarrow> real) \<Rightarrow> lin_constraint \<Rightarrow> bool" where
  "holds a c \<longleftrightarrow> eval a (lhs c) \<le> upper c"

datatype solver_status =
  OPTIMAL | FEASIBLE | INFEASIBLE | UNBOUNDED | ABNORMAL | MODEL_INVALID | NOT_SOLVED

record 's solver_api =
  CreateSolver :: "string \<Rightarrow> 's option"
  IntVar :: "'s \<Rightarrow> int \<Rightarrow> int \<Rightarrow> string \<Rightarrow> py_exn + (var \<times> 's)"
  Maximize :: "'s \<Rightarrow> lin_expr \<Rightarrow> py_exn + 's"
  Add :: "'s \<Rightarrow> lin_constraint \<Rightarrow> string \<Rightarrow> py_exn + 's"
  Solve :: "'s \<Rightarrow> py_exn + (solver_status \<times> 's)"
  ObjectiveValue :: "'s \<Rightarrow> py_exn + real"
  solution_value :: "'s \<Rightarrow> var \<Rightarrow> py_exn + real"

subsection \<open>String formatting\<close>

fun str_nat :: "nat \<Rightarrow> string" where
  "str_nat n =
     (if n < 10 then [''0123456789'' ! n]
      else str_nat (n div 10) @ [''0123456789'' ! (n mod 10)])"

definition str_int :: "int \<Rightarrow> string" where
  "str_int i = (if i < 0 then ''-'' @ str_nat (nat (- i)) else str_nat (nat i))"

definition repr :: "string \<Rightarrow> string" where
  \<comment> \<open>\<open>repr\<close> of a string without quotes or escapes in it: single quotes around it.\<close>
  "repr s = [CHR 0x27] @ s @ [CHR 0x27]"

subsection \<open>The optimizer object\<close>

record 's optimizer =
  config :: optimizer_config
  solver :: 's
  variables :: "string \<rightharpoonup> (int \<rightharpoonup> var)"

definition months :: "'s optimizer \<Rightarrow> int list" where
  \<comment> \<open>\<open>range(1, self.config.planning_months + 1)\<close>\<close>
  "months self = [1..planning_months (config self)]"

definition var_at :: "'s optimizer \<Rightarrow> string \<Rightarrow> int \<Rightarrow> py_exn + var" where
  \<comment> \<open>\<open>self.variables[pid][month]\<close>\<close>
  "var_at self pid month =
     (case variables self pid of
        None \<Rightarrow> Inl (KeyError (repr pid))
      | Some by_month \<Rightarrow>
          (case by_month month of
             None \<Rightarrow> Inl (KeyError (str_int month))
           | Some v \<Rightarrow> Inr v))"

definition py_sum :: "'a list \<Rightarrow> ('a \<Rightarrow> py_exn + lin_expr) \<Rightarrow> py_exn + lin_expr" where
  \<comment> \<open>\<open>sum(term(x) for x in xs)\<close>: starts from 0 and adds from the left.\<close>
  "py_sum xs term =
     for_each xs (\<lambda>x acc. case term x of Inl e \<Rightarrow> Inl e | Inr t \<Rightarrow> Inr (Plus acc t)) (Num 0)"

definition times_var :: "'s optimizer \<Rightarrow> real \<Rightarrow> string \<Rightarrow> int \<Rightarrow> py_exn + lin_expr" where
  \<comment> \<open>\<open>coefficient * self.variables[pid][month]\<close>\<close>
  "times_var self c pid month =
     (case var_at self pid month of Inl e \<Rightarrow> Inl e | Inr v \<Rightarrow> Inr (Times c v))"

subsection \<open>Model construction\<close>

definition variable_body ::
  "'s solver_api \<Rightarrow> product \<Rightarrow> int \<Rightarrow> 's optimizer \<Rightarrow> py_exn + 's optimizer" where
  \<comment> \<open>The body of the month loop of \<open>_create_variables\<close>.\<close>
  "variable_body api p month self =
     (case forecast_month (demand_forecast p) month of
        Inl e \<Rightarrow> Inl e
      | Inr forecast \<Rightarrow>
          (let forecast_adjusted = forecast * demand_multiplier (config self);
               max_qty = py_int (forecast_adjusted * demand_buffer (demand_forecast p))
           in case IntVar api (solver self) 0 max_qty
                     (''q_'' @ product_id p @ ''_m'' @ str_int month) of
                Inl e \<Rightarrow> Inl e
              | Inr (v, s) \<Rightarrow>
                  (case variables self (product_id p) of
                     None \<Rightarrow> Inl (KeyError (repr (product_id p)))
                   | Some by_month \<Rightarrow>
                       Inr (self\<lparr>solver := s,
                         variables := (variables self)(product_id p \<mapsto> by_month(month \<mapsto> v))\<rparr>))))"

definition create_variables ::
  "'s solver_api \<Rightarrow> product list \<Rightarrow> 's optimizer \<Rightarrow> py_exn + 's optimizer" where
  "create_variables api products self =
     for_each products
       (\<lambda>p self. for_each (months self) (variable_body api p)
                    (self\<lparr>variables := (variables self)(product_id p \<mapsto> Map.empty)\<rparr>))
       (self\<lparr>variables := Map.empty\<rparr>)"

definition objective_body ::
  "product list \<Rightarrow> int \<Rightarrow> 's optimizer \<times> lin_expr list \<Rightarrow> py_exn + ('s optimizer \<times> lin_expr list)" where
  \<comment> \<open>The body of the month loop of \<open>_create_objective\<close>; the state is the optimizer
      with the list \<open>objective_terms\<close>.\<close>
  "objective_body products month st =
     (let self = fst st in
      case for_each products
             (\<lambda>p terms. case times_var self (product_margin p) (product_id p) month of
                           Inl e \<Rightarrow> Inl e | Inr t \<Rightarrow> Inr (terms @ [t]))
             (snd st) of
        Inl e \<Rightarrow> Inl e
      | Inr terms \<Rightarrow>
      (case py_sum products (\<lambda>p. times_var self (weight_g p / 1000) (product_id p) month) of
        Inl e \<Rightarrow> Inl e
      | Inr total_weight_kg \<Rightarrow>
      (let weight_shipping = Scaled (cost_per_kg (shipping (config self))) total_weight_kg;
           terms = terms @ [Neg weight_shipping]
       in
       case py_sum products (\<lambda>p. times_var self (size_cm3 p / 1000000) (product_id p) month) of
        Inl e \<Rightarrow> Inl e
      | Inr total_volume_m3 \<Rightarrow>
      (let volume_shipping = Scaled (cost_per_m3 (shipping (config self))) total_volume_m3;
           terms = terms @ [Neg volume_shipping]
       in
       if crosses_border (shipping (config self)) then
         (case py_sum products (\<lambda>p. times_var self (wholesale_price p) (product_id p) month) of
            Inl e \<Rightarrow> Inl e
          | Inr total_wholesale \<Rightarrow>
              (let customs = Scaled (customs_duty_rate (shipping (config self))) total_wholesale
               in Inr (self, terms @ [Neg customs])))
       else Inr (self, terms)))))"

definition create_objective ::
  "'s solver_api \<Rightarrow> product list \<Rightarrow> 's optimizer \<Rightarrow> py_exn + 's optimizer" where
  "create_objective api products self =
     (case for_each (months self) (objective_body products) (self, []) of
        Inl e \<Rightarrow> Inl e
      | Inr (self, objective_terms) \<Rightarrow>
          (case Maximize api (solver self) (foldl Plus (Num 0) objective_terms) of
             Inl e \<Rightarrow> Inl e
           | Inr s \<Rightarrow> Inr (self\<lparr>solver := s\<rparr>)))"

definition add_constraint ::
  "'s solver_api \<Rightarrow> py_exn + lin_expr \<Rightarrow> real \<Rightarrow> string \<Rightarrow> 's optimizer \<Rightarrow> py_exn + 's optimizer" where
  \<comment> \<open>\<open>self.solver.Add(expression <= bound, name)\<close>, the expression evaluated first.\<close>
  "add_constraint api expression bound label self =
     (case expression of
        Inl e \<Rightarrow> Inl e
      | Inr ex \<Rightarrow>
          (case Add api (solver self) \<lparr>lhs = ex, upper = bound\<rparr> label of
             Inl e \<Rightarrow> Inl e
           | Inr s \<Rightarrow> Inr (self\<lparr>solver := s\<rparr>)))"

definition create_constraints ::
  "'s solver_api \<Rightarrow> product list \<Rightarrow> 's optimizer \<Rightarrow> py_exn + 's optimizer" where
  "create_constraints api products self =
     (case for_each (months self)
             (\<lambda>month self.
                add_constraint api
                  (py_sum products (\<lambda>p. times_var self (wholesale_price p) (product_id p) month))
                  (budget_per_month (config self)) (''budget_m'' @ str_int month) self)
             self of
        Inl e \<Rightarrow> Inl e
      | Inr self \<Rightarrow>
      (case add_constraint api
              (py_sum products (\<lambda>p.
                 py_sum (months self) (\<lambda>month.
                   times_var self (size_cm3 p / 1000000) (product_id p) month)))
              (warehouse_capacity_m3 (config self)) ''warehouse_capacity'' self of
        Inl e \<Rightarrow> Inl e
      | Inr self \<Rightarrow>
      (case for_each (months self)
              (\<lambda>month self.
                 add_constraint api
                   (py_sum products (\<lambda>p. times_var self (weight_g p / 1000) (product_id p) month))
                   (max_weight_kg (shipping (config self)))
                   (''shipping_weight_m'' @ str_int month) self)
              self of
        Inl e \<Rightarrow> Inl e
      | Inr self \<Rightarrow>
          for_each (months self)
            (\<lambda>month self.
               add_constraint api
                 (py_sum products (\<lambda>p. times_var self (size_cm3 p / 1000000) (product_id p) month))
                 (max_volume_m3 (shipping (config self)))
                 (''shipping_volume_m'' @ str_int month) self)
            self)))"

subsection \<open>Result extraction\<close>

record order =
  name :: string
  quantity :: int
  unit_wholesale :: real
  total_cost :: real
  unit_retail :: real
  total_revenue :: real
  margin :: real
  weight_kg :: real
  volume_m3 :: real

record breakdown =
  product_cost :: real
  product_revenue :: real
  gross_margin :: real
  weight_shipping :: real
  volume_shipping :: real
  customs_duty :: real
  total_costs :: real
  net_profit :: real
  weight_kg :: real
  volume_m3 :: real
  items_ordered :: nat

record product_total =
  name :: string
  total_quantity :: int
  total_cost :: real
  total_revenue :: real
  total_margin :: real

record results =
  status :: string
  objective_value :: real
  purchase_orders :: "int \<rightharpoonup> (string \<rightharpoonup> order)"
  monthly_breakdown :: "int \<rightharpoonup> breakdown"
  product_totals :: "string \<rightharpoonup> product_total"

text \<open>The running values of one month: the month's orders and its four totals.\<close>

record month_acc =
  orders :: "string \<rightharpoonup> order"
  month_cost :: real
  month_revenue :: real
  month_weight :: real
  month_volume :: real

definition order_of :: "product \<Rightarrow> int \<Rightarrow> order" where
  \<comment> \<open>The dictionary stored for a product ordered \<open>qty\<close> times.\<close>
  "order_of p qty =
     (let cost = wholesale_price p * of_int qty;
          revenue = retail_price p * of_int qty;
          weight = (weight_g p / 1000) * of_int qty;
          volume = (size_cm3 p / 1000000) * of_int qty
      in \<lparr>order.name = product.name p, quantity = qty, unit_wholesale = wholesale_price p,
           order.total_cost = cost, unit_retail = retail_price p, order.total_revenue = revenue,
           order.margin = revenue - cost, order.weight_kg = weight, order.volume_m3 = volume\<rparr>)"

definition order_body ::
  "'s solver_api \<Rightarrow> 's optimizer \<Rightarrow> int \<Rightarrow> product \<Rightarrow> month_acc \<Rightarrow> py_exn + month_acc" where
  \<comment> \<open>The body of the product loop inside the month loop of \<open>_extract_results\<close>.\<close>
  "order_body api self month p acc =
     (case var_at self (product_id p) month of
        Inl e \<Rightarrow> Inl e
      | Inr v \<Rightarrow>
          (case solution_value api (solver self) v of
             Inl e \<Rightarrow> Inl e
           | Inr x \<Rightarrow>
               (let qty = py_int x in
                if qty > 0 then
                  (let entry = order_of p qty in
                   Inr \<lparr>orders = (orders acc)(product_id p \<mapsto> entry),
                        month_cost = month_cost acc + order.total_cost entry,
                        month_revenue = month_revenue acc + order.total_revenue entry,
                        month_weight = month_weight acc + order.weight_kg entry,
                        month_volume = month_volume acc + order.volume_m3 entry\<rparr>)
                else Inr acc)))"

definition breakdown_of :: "shipping_option \<Rightarrow> month_acc \<Rightarrow> breakdown" where
  "breakdown_of sh acc =
     (let weight_shipping = cost_per_kg sh * month_weight acc;
          volume_shipping = cost_per_m3 sh * month_volume acc;
          customs = (if crosses_border sh then customs_duty_rate sh * month_cost acc else 0)
      in \<lparr>product_cost = month_cost acc,
           product_revenue = month_revenue acc,
           gross_margin = month_revenue acc - month_cost acc,
           weight_shipping = weight_shipping,
           volume_shipping = volume_shipping,
           customs_duty = customs,
           total_costs = month_cost acc + weight_shipping + volume_shipping + customs,
           net_profit = month_revenue acc - month_cost acc - weight_shipping - volume_shipping
                        - customs,
           breakdown.weight_kg = month_weight acc,
           breakdown.volume_m3 = month_volume acc,
           items_ordered = card (dom (orders acc))\<rparr>)"

definition month_body ::
  "'s solver_api \<Rightarrow> 's optimizer \<Rightarrow> product list \<Rightarrow> int \<Rightarrow> results \<Rightarrow> py_exn + results" where
  "month_body api self products month res =
     (case for_each products (order_body api self month)
             \<lparr>orders = Map.empty, month_cost = 0, month_revenue = 0, month_weight = 0,
              month_volume = 0\<rparr> of
        Inl e \<Rightarrow> Inl e
      | Inr acc \<Rightarrow>
          Inr (res\<lparr>purchase_orders := (purchase_orders res)(month \<mapsto> orders acc),
                   monthly_breakdown :=
                     (monthly_breakdown res)(month \<mapsto> breakdown_of (shipping (config self)) acc)\<rparr>))"

definition total_body ::
  "results \<Rightarrow> product \<Rightarrow> int \<Rightarrow> int \<times> real \<times> real \<Rightarrow> py_exn + (int \<times> real \<times> real)" where
  \<comment> \<open>The month loop of the product totals; the state \<open>(qty_sum, cost_sum, revenue_sum)\<close>
      is the source's \<open>total_qty\<close>, \<open>total_cost\<close>, \<open>total_revenue\<close>.\<close>
  "total_body res p month acc =
     (case purchase_orders res month of
        None \<Rightarrow> Inl (KeyError (str_int month))
      | Some by_product \<Rightarrow>
          (case by_product (product_id p) of
             None \<Rightarrow> Inr acc
           | Some entry \<Rightarrow>
               (case acc of (qty_sum, cost_sum, revenue_sum) \<Rightarrow>
                  Inr (qty_sum + quantity entry, cost_sum + order.total_cost entry,
                       revenue_sum + order.total_revenue entry))))"

definition product_total_body ::
  "'s optimizer \<Rightarrow> product \<Rightarrow> results \<Rightarrow> py_exn + results" where
  "product_total_body self p res =
     (case for_each (months self) (total_body res p) (0, 0, 0) of
        Inl e \<Rightarrow> Inl e
      | Inr (qty_sum, cost_sum, revenue_sum) \<Rightarrow>
          if qty_sum > 0 then
            Inr (res\<lparr>product_totals := (product_totals res)(product_id p \<mapsto>
                   \<lparr>product_total.name = product.name p, total_quantity = qty_sum,
                    product_total.total_cost = cost_sum,
                    product_total.total_revenue = revenue_sum,
                    total_margin = revenue_sum - cost_sum\<rparr>)\<rparr>)
          else Inr res)"

definition extract_results ::
  "'s solver_api \<Rightarrow> product list \<Rightarrow> solver_status \<Rightarrow> 's optimizer \<Rightarrow> py_exn + results" where
  "extract_results api products solver_status self =
     (let status = (if solver_status = OPTIMAL then ''OPTIMAL''
                    else if solver_status = FEASIBLE then ''FEASIBLE''
                    else ''INFEASIBLE'')
      in
      case (if status \<in> set [''OPTIMAL'', ''FEASIBLE''] then ObjectiveValue api (solver self)
            else Inr 0) of
        Inl e \<Rightarrow> Inl e
      | Inr objective \<Rightarrow>
          (let res = \<lparr>status = status, objective_value = objective,
                      purchase_orders = Map.empty, monthly_breakdown = Map.empty,
                      product_totals = Map.empty\<rparr>
           in
           if status \<in> set [''OPTIMAL'', ''FEASIBLE''] then
             (case for_each (months self) (month_body api self products) res of
                Inl e \<Rightarrow> Inl e
              | Inr res \<Rightarrow> for_each products (product_total_body self) res)
           else Inr res))"

subsection \<open>The public entry point\<close>

text \<open>
  \<open>optimize\<close> returns a dictionary: either the extracted results, or the two keys
  \<open>status = 'ERROR'\<close> and \<open>message\<close>.
\<close>

datatype outcome = Error_dict string | Results_dict results

fun status_of :: "outcome \<Rightarrow> string" where
  "status_of (Error_dict message) = ''ERROR''"
| "status_of (Results_dict res) = status res"

fun str_exn :: "py_exn \<Rightarrow> string" where
  \<comment> \<open>\<open>str(e)\<close>\<close>
  "str_exn ZeroDivisionError = ''float division by zero''"
| "str_exn IndexError = ''list index out of range''"
| "str_exn (KeyError k) = k"
| "str_exn (LibraryError m) = m"
| "str_exn KeyboardInterrupt = ''''"

fun is_Exception :: "py_exn \<Rightarrow> bool" where
  \<comment> \<open>\<open>isinstance(e, Exception)\<close>: what \<open>except Exception\<close> catches.\<close>
  "is_Exception KeyboardInterrupt = False"
| "is_Exception e = True"

definition build_model :: "'s solver_api \<Rightarrow> product list \<Rightarrow> 's optimizer \<Rightarrow> py_exn + 's optimizer" where
  \<comment> \<open>The three construction calls of \<open>optimize\<close>, in their order.\<close>
  "build_model api products self =
     (case create_variables api products self of
        Inl e \<Rightarrow> Inl e
      | Inr self \<Rightarrow>
      (case create_objective api products self of
        Inl e \<Rightarrow> Inl e
      | Inr self \<Rightarrow> create_constraints api products self))"

definition try_body :: "'s solver_api \<Rightarrow> product list \<Rightarrow> 's optimizer \<Rightarrow> py_exn + results" where
  \<comment> \<open>The statements inside \<open>try:\<close> of \<open>optimize\<close>: build, solve, extract.\<close>
  "try_body api products self =
     (case build_model api products self of
        Inl e \<Rightarrow> Inl e
      | Inr self \<Rightarrow>
      (case Solve api (solver self) of
        Inl e \<Rightarrow> Inl e
      | Inr (solver_status, s) \<Rightarrow>
          extract_results api products solver_status (self\<lparr>solver := s\<rparr>)))"

definition new_optimizer :: "optimizer_config \<Rightarrow> 's \<Rightarrow> 's optimizer" where
  \<comment> \<open>The object after \<open>__init__\<close> and \<open>self.solver = CreateSolver(...)\<close>.\<close>
  "new_optimizer cfg s = \<lparr>config = cfg, solver = s, variables = Map.empty\<rparr>"

definition optimize :: "'s solver_api \<Rightarrow> optimizer_config \<Rightarrow> product list \<Rightarrow> py_exn + outcome" where
  "optimize api cfg products =
     (case CreateSolver api (solver_type cfg) of
        None \<Rightarrow> Inr (Error_dict (''Solver '' @ solver_type cfg @ '' unavailable''))
      | Some s \<Rightarrow>
          (case try_body api products (new_optimizer cfg s) of
             Inr res \<Rightarrow> Inr (Results_dict res)
           | Inl e \<Rightarrow> if is_Exception e then Inr (Error_dict (str_exn e)) else Inl e))"

subsection \<open>A scripted solver\<close>

text \<open>
  A stand-in for the library that records the model it is given and answers with a
  scripted status, objective value and solution. It shows what the optimizer hands to the
  solver, and serves as the concrete library in the examples.
\<close>

record lp_model =
  declared :: "(int \<times> int \<times> string) list"
  objective :: "lin_expr option"
  rows :: "(lin_constraint \<times> string) list"

definition empty_model :: lp_model where
  "empty_model = \<lparr>declared = [], objective = None, rows = []\<rparr>"

definition scripted_solver :: "solver_status \<Rightarrow> real \<Rightarrow> (var \<Rightarrow> real) \<Rightarrow> lp_model solver_api" where
  "scripted_solver answer objective_answer solution =
     \<lparr>CreateSolver = (\<lambda>engine. Some empty_model),
      IntVar = (\<lambda>s lb ub label. Inr (length (declared s), s\<lparr>declared := declared s @ [(lb, ub, label)]\<rparr>)),
      Maximize = (\<lambda>s e. Inr (s\<lparr>objective := Some e\<rparr>)),
      Add = (\<lambda>s c label. Inr (s\<lparr>rows := rows s @ [(c, label)]\<rparr>)),
      Solve = (\<lambda>s. Inr (answer, s)),
      ObjectiveValue = (\<lambda>s. Inr objective_answer),
      solution_value = (\<lambda>s v. Inr (solution v))\<rparr>"



subsection \<open>The specification's formulas\<close>

text \<open>
  The forecast, the variable bound and the four kinds of constraint as the specification
  words them, over a quantity \<open>qty pid m\<close> for each product id and month. The
  specification's \<open>weight_kg\<close> and \<open>volume_m3\<close> of a product are its \<open>weight_g / 1000\<close> and
  \<open>size_cm3 / 1,000,000\<close>.
\<close>

definition spec_forecast :: "demand_forecast \<Rightarrow> int \<Rightarrow> real" where
  "spec_forecast df month =
     base_demand df * get (demand_forecast.seasonal_factors df) month
     * trend_factor df ^ nat (month - 1)"

definition bound_value :: "optimizer_config \<Rightarrow> product \<Rightarrow> int \<Rightarrow> real" where
  \<comment> \<open>\<open>forecast(m) * global_demand_multiplier * demand_buffer\<close>, before it is made an integer.\<close>
  "bound_value cfg p month =
     spec_forecast (demand_forecast p) month * demand_multiplier cfg
     * demand_buffer (demand_forecast p)"


definition spec_budget ::
  "optimizer_config \<Rightarrow> product list \<Rightarrow> (string \<Rightarrow> int \<Rightarrow> real) \<Rightarrow> int \<Rightarrow> bool" where
  "spec_budget cfg products qty m \<longleftrightarrow>
     (\<Sum>p\<leftarrow>products. wholesale_price p * qty (product_id p) m) \<le> budget_per_month cfg"

definition spec_warehouse ::
  "optimizer_config \<Rightarrow> product list \<Rightarrow> (string \<Rightarrow> int \<Rightarrow> real) \<Rightarrow> bool" where
  "spec_warehouse cfg products qty \<longleftrightarrow>
     (\<Sum>m\<leftarrow>[1..planning_months cfg]. \<Sum>p\<leftarrow>products.
        (size_cm3 p / 1000000) * qty (product_id p) m) \<le> warehouse_capacity_m3 cfg"

definition spec_shipping_weight ::
  "optimizer_config \<Rightarrow> product list \<Rightarrow> (string \<Rightarrow> int \<Rightarrow> real) \<Rightarrow> int \<Rightarrow> bool" where
  "spec_shipping_weight cfg products qty m \<longleftrightarrow>
     (\<Sum>p\<leftarrow>products. (weight_g p / 1000) * qty (product_id p) m)
       \<le> max_weight_kg (shipping cfg)"

definition spec_shipping_volume ::
  "optimizer_config \<Rightarrow> product list \<Rightarrow> (string \<Rightarrow> int \<Rightarrow> real) \<Rightarrow> int \<Rightarrow> bool" where
  "spec_shipping_volume cfg products qty m \<longleftrightarrow>
     (\<Sum>p\<leftarrow>products. (size_cm3 p / 1000000) * qty (product_id p) m)
       \<le> max_volume_m3 (shipping cfg)"

subsection \<open>Auxiliary notions for the proofs\<close>

definition var_label :: "product \<Rightarrow> int \<Rightarrow> string" where
  "var_label p month = ''q_'' @ product_id p @ ''_m'' @ str_int month"

definition declares :: "optimizer_config \<Rightarrow> product \<Rightarrow> int \<Rightarrow> int \<times> int \<times> string" where
  \<comment> \<open>What \<open>_create_variables\<close> passes to \<open>IntVar\<close> for a product and a month from 1 on.\<close>
  "declares cfg p month = (0, py_int (bound_value cfg p month), var_label p month)"

definition registered :: "'s optimizer \<Rightarrow> string \<Rightarrow> bool" where
  \<comment> \<open>\<open>self.variables[pid]\<close> has a variable for every planning month.\<close>
  "registered self pid \<longleftrightarrow>
     (\<exists>by_month. variables self pid = Some by_month
        \<and> (\<forall>m\<in>set (months self). by_month m \<noteq> None))"

definition linked :: "product set \<Rightarrow> lp_model optimizer \<Rightarrow> bool" where
  \<comment> \<open>Every handle in \<open>self.variables\<close> points at the declaration made for a product
      with that id and for that month.\<close>
  "linked P self \<longleftrightarrow>
     (\<forall>pid by_month m v. variables self pid = Some by_month \<longrightarrow> by_month m = Some v \<longrightarrow>
        v < length (declared (solver self))
        \<and> (\<exists>p\<in>P. product_id p = pid
               \<and> declared (solver self) ! v = declares (config self) p m))"

definition handle :: "'s optimizer \<Rightarrow> string \<Rightarrow> int \<Rightarrow> var" where
  \<comment> \<open>The handle \<open>self.variables[pid][month]\<close> where it exists.\<close>
  "handle self pid month = (case var_at self pid month of Inr v \<Rightarrow> v | Inl e \<Rightarrow> 0)"

definition raised_while_building ::
  "'s solver_api \<Rightarrow> product list \<Rightarrow> 's optimizer \<Rightarrow> py_exn \<Rightarrow> bool" where
  \<comment> \<open>The exception \<open>e\<close> is raised by variable, objective or constraint construction, or
      by the solve call after them.\<close>
  "raised_while_building api products self e \<longleftrightarrow>
     create_variables api products self = Inl e
     \<or> (\<exists>self1. create_variables api products self = Inr self1
          \<and> (create_objective api products self1 = Inl e
             \<or> (\<exists>self2. create_objective api products self1 = Inr self2
                  \<and> (create_constraints api products self2 = Inl e
                     \<or> (\<exists>self3. create_constraints api products self2 = Inr self3
                          \<and> Solve api (solver self3) = Inl e)))))"


definition weighted :: "'s optimizer \<Rightarrow> (product \<Rightarrow> real) \<Rightarrow> product list \<Rightarrow> int \<Rightarrow> lin_expr" where
  "weighted self coefficient products m =
     fold (\<lambda>p acc. Plus acc (Times (coefficient p) (handle self (product_id p) m))) products (Num 0)"

definition warehouse_expr :: "'s optimizer \<Rightarrow> product list \<Rightarrow> lin_expr" where
  "warehouse_expr self products =
     fold (\<lambda>p acc. Plus acc
            (fold (\<lambda>m acc. Plus acc (Times (size_cm3 p / 1000000) (handle self (product_id p) m)))
               (months self) (Num 0)))
       products (Num 0)"

definition budget_row :: "lp_model optimizer \<Rightarrow> product list \<Rightarrow> int \<Rightarrow> lin_constraint \<times> string" where
  "budget_row self products m =
     (\<lparr>lhs = weighted self wholesale_price products m, upper = budget_per_month (config self)\<rparr>,
      ''budget_m'' @ str_int m)"

definition warehouse_row :: "lp_model optimizer \<Rightarrow> product list \<Rightarrow> lin_constraint \<times> string" where
  "warehouse_row self products =
     (\<lparr>lhs = warehouse_expr self products, upper = warehouse_capacity_m3 (config self)\<rparr>,
      ''warehouse_capacity'')"

definition weight_row :: "lp_model optimizer \<Rightarrow> product list \<Rightarrow> int \<Rightarrow> lin_constraint \<times> string" where
  "weight_row self products m =
     (\<lparr>lhs = weighted self (\<lambda>p. weight_g p / 1000) products m,
       upper = max_weight_kg (shipping (config self))\<rparr>,
      ''shipping_weight_m'' @ str_int m)"

definition volume_row :: "lp_model optimizer \<Rightarrow> product list \<Rightarrow> int \<Rightarrow> lin_constraint \<times> string" where
  "volume_row self products m =
     (\<lparr>lhs = weighted self (\<lambda>p. size_cm3 p / 1000000) products m,
       upper = max_volume_m3 (shipping (config self))\<rparr>,
      ''shipping_volume_m'' @ str_int m)"

definition read_back :: "(var \<Rightarrow> real) \<Rightarrow> 's optimizer \<Rightarrow> string \<Rightarrow> int \<Rightarrow> int" where
  \<comment> \<open>\<open>int(self.variables[pid][m].solution_value())\<close> for the solution \<open>x\<close>.\<close>
  "read_back x self pid m = py_int (x (handle self pid m))"

definition expected_orders ::
  "(var \<Rightarrow> real) \<Rightarrow> 's optimizer \<Rightarrow> product list \<Rightarrow> int \<Rightarrow> (string \<rightharpoonup> order) \<Rightarrow> string \<rightharpoonup> order" where
  \<comment> \<open>The month's orders after the product loop, from the orders \<open>before\<close> it: the last
      product with an id writes the entry of that id.\<close>
  "expected_orders x self products m before pid =
     (case find (\<lambda>p. product_id p = pid) (rev products) of
        None \<Rightarrow> before pid
      | Some p \<Rightarrow>
          if 0 < read_back x self pid m then Some (order_of p (read_back x self pid m))
          else before pid)"

definition ordered_quantity :: "py_exn + outcome \<Rightarrow> int \<Rightarrow> string \<Rightarrow> int option" where
  \<comment> \<open>\<open>result['purchase_orders'][m][pid]['quantity']\<close> where all of it exists.\<close>
  "ordered_quantity result m pid =
     (case result of
        Inr (Results_dict res) \<Rightarrow>
          (case purchase_orders res m of
             Some by_product \<Rightarrow> map_option quantity (by_product pid)
           | None \<Rightarrow> None)
      | _ \<Rightarrow> None)"

subsection \<open>Example inputs\<close>

text \<open>
  The end-to-end scenario of the specification: one product (wholesale 10, retail 20,
  500 g, 1000 cm3, base demand 100 a month, trend 1.0, buffer 1.5, no seasonal factor
  given, so that every month counts 1.0) and a plan of one month.
\<close>

definition example_forecast :: "real \<Rightarrow> demand_forecast" where
  "example_forecast demand =
     \<lparr>base_demand = demand, demand_forecast.seasonal_factors = \<lparr>factors = Map.empty\<rparr>,
      trend_factor = 1,
      demand_buffer = 15 / 10\<rparr>"

definition example_product :: "real \<Rightarrow> product" where
  "example_product demand =
     \<lparr>product_id = ''P1'', product.name = ''Product_1'', wholesale_price = 10, retail_price = 20,
      size_cm3 = 1000, weight_g = 500, category = ''general'',
      demand_forecast = example_forecast demand,
      bulk_discount_threshold = 0, bulk_discount_rate = 0\<rparr>"

definition example_shipping :: shipping_option where
  "example_shipping =
     \<lparr>shipping_option.name = ''standard'', cost_per_kg = 2, cost_per_m3 = 50, max_weight_kg = 1000,
      max_volume_m3 = 10, crosses_border = False, customs_duty_rate = 0, days_transit = 3\<rparr>"

definition example_config :: optimizer_config where
  "example_config =
     \<lparr>planning_months = 1, budget_per_month = 1000, warehouse_capacity_m3 = 10,
      shipping = example_shipping, solver_time_limit_seconds = 300, solver_type = ''SCIP'',
      demand_multiplier = 1, optimizer_config.seasonal_factors = None\<rparr>"

definition unavailable_solver :: "lp_model solver_api" where
  \<comment> \<open>A runtime without the requested engine.\<close>
  "unavailable_solver = (scripted_solver OPTIMAL 0 (\<lambda>v. 0))\<lparr>CreateSolver := (\<lambda>engine. None)\<rparr>"

definition failing_solver :: "py_exn \<Rightarrow> lp_model solver_api" where
  \<comment> \<open>A library whose \<open>IntVar\<close> raises.\<close>
  "failing_solver e = (scripted_solver OPTIMAL 0 (\<lambda>v. 0))\<lparr>IntVar := (\<lambda>s lb ub label. Inl e)\<rparr>"


section \<open>Properties of the axis ranges\<close>

lemma axis_loop_exit: "\<not> current \<le> mx \<Longrightarrow> axis_loop current mx step xs = Some xs"
  by (subst axis_loop.simps) simp

lemma axis_loop_step:
  "current \<le> mx \<Longrightarrow>
   axis_loop current mx step xs = axis_loop (current + step) mx step (xs @ [round2 current])"
  by (subst axis_loop.simps) simp




lemma py_round_half_even_of_int: "py_round_half_even (of_int a) = a"
  by (simp add: py_round_half_even_def)

lemma round2_grid: "x * 100 \<in> \<int> \<Longrightarrow> round2 x = x"
  by (auto simp: round2_def py_round_half_even_of_int elim!: Ints_cases)















section \<open>Properties of the plausibility filter\<close>

lemma density_of_total: "\<exists>d. density_of w s = Inr d"
  by (simp add: density_of_def truediv_def Let_def)

lemma value_per_kg_of_total: "\<exists>v. value_per_kg_of p w = Inr v"
  by (simp add: value_per_kg_of_def truediv_def Let_def)

lemma exI_if_Inr:
  "\<exists>b. y = Inr b \<Longrightarrow> \<exists>b. (if c then Inr x else y) = (Inr b :: py_exn + bool)"
  by simp

lemma is_realistic_combination_total:
  "\<exists>b. is_realistic_combination p w s dmin dmax = Inr b"
proof -
  obtain d where d: "density_of w s = Inr d" using density_of_total by blast
  obtain v where v: "value_per_kg_of p w = Inr v" using value_per_kg_of_total by blast
  show ?thesis
    unfolding is_realistic_combination_def d v Let_def sum.case
    by (intro exI_if_Inr) blast
qed

text \<open>
  C10. The filter is total: it returns a boolean for every real price, weight and size and
  never raises. The two divisions are guarded: with \<open>size_cm3 \<le> 0\<close> the density is 0, with
  weight 0 the value per kg is 0.
\<close>

theorem filter_total:
  "(\<exists>b. is_realistic_combination p w s dmin dmax = Inr b)
   \<and> (s \<le> 0 \<longrightarrow> density_of w s = Inr 0)
   \<and> (w = 0 \<longrightarrow> value_per_kg_of p w = Inr 0)"
  using is_realistic_combination_total [of p w s dmin dmax]
  by (simp add: density_of_def value_per_kg_of_def Let_def)

theorem filter_total_witness:
  "(\<exists>b. is_realistic_combination 20 0 0 (1 / 100) 10 = Inr b)
   \<and> ((0::real) \<le> 0 \<and> density_of 0 0 = Inr 0)
   \<and> ((0::real) = 0 \<and> value_per_kg_of 20 0 = Inr 0)"
  using filter_total [of 20 0 0 "1 / 100" 10] by simp

text \<open>
  C9. The filter is monotone in the density window: a combination rejected for
  \<open>[dmin, dmax]\<close> stays rejected for every narrower window \<open>[dmin', dmax']\<close>.
\<close>

theorem filter_monotone:
  assumes "dmin \<le> dmin'" and "dmax' \<le> dmax"
    and "is_realistic_combination p w s dmin dmax = Inr False"
  shows "is_realistic_combination p w s dmin' dmax' = Inr False"
proof -
  obtain d where d: "density_of w s = Inr d" using density_of_total by blast
  define rest where "rest = is_realistic_combination p w s d d"
  have split: "is_realistic_combination p w s lo hi =
      (if d < lo \<or> hi < d then Inr False else rest)" for lo hi
    by (simp add: is_realistic_combination_def d rest_def Let_def)
  show ?thesis
  proof (cases "d < dmin \<or> dmax < d")
    case True
    with assms(1,2) have "d < dmin' \<or> dmax' < d" by linarith
    then show ?thesis by (simp add: split)
  next
    case False
    with assms(3) have "rest = Inr False" by (simp add: split)
    then show ?thesis by (simp add: split)
  qed
qed

theorem filter_monotone_witness:
  "(1 / 100 :: real) \<le> 1 / 10 \<and> (5 :: real) \<le> 10
   \<and> is_realistic_combination 3 6000 1000 (1 / 100) 10 = Inr False
   \<and> is_realistic_combination 3 6000 1000 (1 / 10) 5 = Inr False"
proof -
  have a: "(1 / 100 :: real) \<le> 1 / 10" and b: "(5 :: real) \<le> 10" by simp_all
  have c: "is_realistic_combination 3 6000 1000 (1 / 100) 10 = Inr False"
    by (simp add: is_realistic_combination_def density_of_def value_per_kg_of_def
        truediv_def Let_def)
  from a b c filter_monotone [OF a b c] show ?thesis by simp
qed

section \<open>Properties of the generated candidates\<close>

lemma for_each_invariant:
  assumes "for_each xs body s = Inr s'" and "I s"
    and "\<And>x t t'. x \<in> set xs \<Longrightarrow> I t \<Longrightarrow> body x t = Inr t' \<Longrightarrow> I t'"
  shows "I s'"
  using assms
proof (induction xs arbitrary: s)
  case Nil
  then show ?case by simp
next
  case (Cons x xs)
  from Cons.prems(1) obtain t where t: "body x s = Inr t" and r: "for_each xs body t = Inr s'"
    by (auto split: sum.splits)
  have "I t" using Cons.prems(3) [of x s t] Cons.prems(2) t by simp
  moreover have "I u'" if "y \<in> set xs" "I u" "body y u = Inr u'" for y u u'
    using Cons.prems(3) [of y u u'] that by simp
  ultimately show ?case using Cons.IH [OF r] by blast
qed

lemma candidate_body_derived:
  assumes "candidate_body params cfg price weight sz ship cs = Inr cs'"
    and "\<forall>c\<in>set cs. demand_derived cfg c"
  shows "\<forall>c\<in>set cs'. demand_derived cfg c"
  using assms
  by (auto simp: candidate_body_def demand_derived_def split: sum.splits if_splits)

lemma set_py_prefix: "set (py_prefix n xs) \<subseteq> set xs"
  by (auto simp: py_prefix_def dest: in_set_takeD)

lemma set_truncate_candidates: "set (truncate_candidates limit cs) \<subseteq> set cs"
  using set_py_prefix [of _ "sort_key (\<lambda>c. - profit_potential c) cs"]
  by (auto simp: truncate_candidates_def split: option.splits)

lemma ships_loop_derived:
  assumes "for_each ships (candidate_body params cfg price weight sz) t = Inr t'"
    and "\<forall>c\<in>set t. demand_derived cfg c"
  shows "\<forall>c\<in>set t'. demand_derived cfg c"
  using assms(1,2) by (rule for_each_invariant) (rule candidate_body_derived)

lemma sizes_loop_derived:
  assumes "for_each sizes (\<lambda>sz. for_each ships (candidate_body params cfg price weight sz)) t
      = Inr t'"
    and "\<forall>c\<in>set t. demand_derived cfg c"
  shows "\<forall>c\<in>set t'. demand_derived cfg c"
  using assms(1,2) by (rule for_each_invariant) (rule ships_loop_derived)

lemma weights_loop_derived:
  assumes "for_each weights (\<lambda>weight. for_each sizes (\<lambda>sz.
      for_each ships (candidate_body params cfg price weight sz))) t = Inr t'"
    and "\<forall>c\<in>set t. demand_derived cfg c"
  shows "\<forall>c\<in>set t'. demand_derived cfg c"
  using assms(1,2) by (rule for_each_invariant) (rule sizes_loop_derived)

lemma prices_loop_derived:
  assumes "for_each prices (\<lambda>price. for_each weights (\<lambda>weight. for_each sizes (\<lambda>sz.
      for_each ships (candidate_body params cfg price weight sz)))) t = Inr t'"
    and "\<forall>c\<in>set t. demand_derived cfg c"
  shows "\<forall>c\<in>set t'. demand_derived cfg c"
  using assms(1,2) by (rule for_each_invariant) (rule weights_loop_derived)

lemma generated_demand_derived:
  assumes "generate_all_product_candidates params cfg = Some (Inr cs)" and "c \<in> set cs"
  shows "demand_derived cfg c"
proof -
  from assms(1) obtain prices weights sizes ships all_cs where
    loop: "for_each prices (\<lambda>price. for_each weights (\<lambda>weight. for_each sizes (\<lambda>sz.
             for_each ships (candidate_body params cfg price weight sz)))) [] = Inr all_cs"
    and cs: "cs = truncate_candidates (max_candidates params) all_cs"
    by (auto simp: generate_all_product_candidates_def split: option.splits sum.splits)
  have "\<forall>c\<in>set all_cs. demand_derived cfg c"
    using prices_loop_derived [OF loop] by simp
  with cs assms(2) set_truncate_candidates show ?thesis by blast
qed

lemma axis_unit: "axis_loop a a 1 [] = Some [round2 a]"
  by (simp add: axis_loop_step axis_loop_exit)

lemma unit_generation:
  "generate_all_product_candidates unit_params (one_tier_config cap) =
     Some (Inr [\<lparr>product_candidate.wholesale_price = 1, product_candidate.retail_price = 3, product_candidate.weight_g = 1000, product_candidate.size_cm3 = 1000,
       shipping_cost_multiplier = 1, product_candidate.base_demand = min 320 cap\<rparr>])"
  by (simp add: generate_all_product_candidates_def unit_params_def one_tier_config_def
      generate_price_range_def generate_weight_range_def generate_size_range_def
      generate_shipping_costs_def axis_unit round2_grid candidate_body_def
      is_realistic_combination_def density_of_def value_per_kg_of_def truediv_def
      estimate_retail_price_def estimate_base_demand_def get_demand_tier_def
      truncate_candidates_def Let_def)

lemma estimate_base_demand_tier:
  assumes "get_demand_tier wholesale cfg = Some tier"
  shows "estimate_base_demand wholesale sz w cfg =
      min (max 1 (base_demand_monthly tier * demand_tier.demand_multiplier tier
                  * (if sz > 20000 then 1 / 2 else 1) * (if w / 1000 > 20 then 7 / 10 else 1)))
          (max_demand_monthly tier)"
  using assms by (simp add: estimate_base_demand_def Let_def)

text \<open>
  C8 (as the code has it). Every candidate the generator returns carries the demand
  estimate of its own price, size and weight. When no demand tier matches the wholesale
  price this is the fallback 5. When a tier matches, it is the tier's base demand times
  its multiplier, halved for a size above 20,000 cm3, times 0.7 for a weight above 20 kg,
  raised to at least 1 and then capped at the tier's \<open>max_demand_monthly\<close>: the cap is
  applied last, so the demand never exceeds it, and the demand is at least 1 whenever the
  cap itself is at least 1.
\<close>

theorem generated_demand_cap:
  assumes "generate_all_product_candidates params cfg = Some (Inr cs)" and "c \<in> set cs"
  shows "case get_demand_tier (product_candidate.wholesale_price c) cfg of
           None \<Rightarrow> product_candidate.base_demand c = 5
         | Some tier \<Rightarrow>
             product_candidate.base_demand c =
               min (max 1 (base_demand_monthly tier * demand_tier.demand_multiplier tier
                     * (if product_candidate.size_cm3 c > 20000 then 1 / 2 else 1)
                     * (if product_candidate.weight_g c / 1000 > 20 then 7 / 10 else 1)))
                   (max_demand_monthly tier)
             \<and> product_candidate.base_demand c \<le> max_demand_monthly tier
             \<and> (1 \<le> max_demand_monthly tier \<longrightarrow> 1 \<le> product_candidate.base_demand c)"
proof (cases "get_demand_tier (product_candidate.wholesale_price c) cfg")
  case None
  with generated_demand_derived [OF assms] show ?thesis
    by (simp add: demand_derived_def estimate_base_demand_def)
next
  case (Some tier)
  from generated_demand_derived [OF assms]
  have "product_candidate.base_demand c =
      min (max 1 (base_demand_monthly tier * demand_tier.demand_multiplier tier
            * (if product_candidate.size_cm3 c > 20000 then 1 / 2 else 1)
            * (if product_candidate.weight_g c / 1000 > 20 then 7 / 10 else 1)))
          (max_demand_monthly tier)"
    by (simp only: demand_derived_def estimate_base_demand_tier [OF Some])
  then show ?thesis by (simp add: Some)
qed

theorem generated_demand_cap_witness:
  "generate_all_product_candidates unit_params (one_tier_config 500) =
     Some (Inr [\<lparr>product_candidate.wholesale_price = 1, product_candidate.retail_price = 3, product_candidate.weight_g = 1000, product_candidate.size_cm3 = 1000,
       shipping_cost_multiplier = 1, product_candidate.base_demand = 320\<rparr>])
   \<and> get_demand_tier 1 (one_tier_config 500) =
       Some \<lparr>min_price = 0, max_price = 50, base_demand_monthly = 320,
         demand_tier.demand_multiplier = 1, max_demand_monthly = 500\<rparr>
   \<and> (320 :: real) \<le> 500 \<and> (1 :: real) \<le> 320"
proof -
  let ?c = "\<lparr>product_candidate.wholesale_price = 1, product_candidate.retail_price = 3, product_candidate.weight_g = 1000, product_candidate.size_cm3 = 1000,
       shipping_cost_multiplier = 1, product_candidate.base_demand = 320\<rparr>"
  have g: "generate_all_product_candidates unit_params (one_tier_config 500) = Some (Inr [?c])"
    by (simp add: unit_generation)
  have t: "get_demand_tier 1 (one_tier_config 500) =
       Some \<lparr>min_price = 0, max_price = 50, base_demand_monthly = 320,
         demand_tier.demand_multiplier = 1, max_demand_monthly = 500\<rparr>"
    by (simp add: get_demand_tier_def one_tier_config_def)
  from generated_demand_cap [OF g, of ?c] g t show ?thesis by simp
qed

text \<open>
  With a tier whose \<open>max_demand_monthly\<close> is 0.5 the generated candidate matches the tier
  and has base demand 0.5, below 1.
\<close>

theorem generated_demand_below_one:
  "generate_all_product_candidates unit_params (one_tier_config (1 / 2)) =
     Some (Inr [\<lparr>product_candidate.wholesale_price = 1, product_candidate.retail_price = 3, product_candidate.weight_g = 1000, product_candidate.size_cm3 = 1000,
       shipping_cost_multiplier = 1, product_candidate.base_demand = 1 / 2\<rparr>])
   \<and> get_demand_tier 1 (one_tier_config (1 / 2)) =
       Some \<lparr>min_price = 0, max_price = 50, base_demand_monthly = 320,
         demand_tier.demand_multiplier = 1, max_demand_monthly = 1 / 2\<rparr>
   \<and> (1 / 2 :: real) < 1"
proof -
  have "get_demand_tier 1 (one_tier_config (1 / 2)) =
       Some \<lparr>min_price = 0, max_price = 50, base_demand_monthly = 320,
         demand_tier.demand_multiplier = 1, max_demand_monthly = 1 / 2\<rparr>"
    by (simp add: get_demand_tier_def one_tier_config_def)
  then show ?thesis by (simp add: unit_generation)
qed


section \<open>Properties of model construction\<close>

lemma forecast_month_positive:
  "1 \<le> month \<Longrightarrow> forecast_month df month =
     Inr (base_demand df * get (demand_forecast.seasonal_factors df) month * trend_factor df ^ nat (month - 1))"
  by (simp add: forecast_month_def float_pow_def)

lemma variable_body_scripted:
  assumes "1 \<le> month" and "variables self (product_id p) = Some by_month"
  shows "variable_body (scripted_solver st ov x) p month self =
    Inr (self\<lparr>solver := (solver self)\<lparr>declared := declared (solver self) @ [declares (config self) p month]\<rparr>,
              variables := (variables self)(product_id p \<mapsto> by_month(month \<mapsto> length (declared (solver self))))\<rparr>)"
  using assms
  by (simp add: variable_body_def forecast_month_positive scripted_solver_def Let_def
      declares_def bound_value_def spec_forecast_def var_label_def)

lemma month_loop_scripted:
  assumes "\<forall>m\<in>set ms. 1 \<le> m" and "variables self (product_id p) = Some by_month"
  shows "\<exists>self' by_month'.
      for_each ms (variable_body (scripted_solver st ov x) p) self = Inr self'
    \<and> config self' = config self
    \<and> declared (solver self') = declared (solver self) @ map (declares (config self) p) ms
    \<and> rows (solver self') = rows (solver self)
    \<and> variables self' = (variables self)(product_id p \<mapsto> by_month')
    \<and> (\<forall>m. m \<in> set ms \<or> by_month m \<noteq> None \<longrightarrow> by_month' m \<noteq> None)"
  using assms
proof (induction ms arbitrary: self by_month)
  case Nil
  then show ?case by (auto intro!: exI [of _ by_month])
next
  case (Cons m ms)
  let ?self1 = "self\<lparr>solver := (solver self)\<lparr>declared := declared (solver self) @ [declares (config self) p m]\<rparr>,
              variables := (variables self)(product_id p \<mapsto> by_month(m \<mapsto> length (declared (solver self))))\<rparr>"
  have step: "variable_body (scripted_solver st ov x) p m self = Inr ?self1"
    using Cons.prems by (simp add: variable_body_scripted)
  have "\<forall>m\<in>set ms. 1 \<le> m" using Cons.prems(1) by simp
  moreover have "variables ?self1 (product_id p) = Some (by_month(m \<mapsto> length (declared (solver self))))"
    by simp
  ultimately obtain self' by_month' where
    r: "for_each ms (variable_body (scripted_solver st ov x) p) ?self1 = Inr self'"
    and c: "config self' = config ?self1"
    and d: "declared (solver self') = declared (solver ?self1) @ map (declares (config ?self1) p) ms"
    and w: "rows (solver self') = rows (solver ?self1)"
    and v: "variables self' = (variables ?self1)(product_id p \<mapsto> by_month')"
    and k: "\<forall>k. k \<in> set ms \<or> (by_month(m \<mapsto> length (declared (solver self)))) k \<noteq> None
         \<longrightarrow> by_month' k \<noteq> None"
    using Cons.IH [of ?self1 "by_month(m \<mapsto> length (declared (solver self)))"] by blast
  show ?case
  proof (intro exI conjI)
    show "for_each (m # ms) (variable_body (scripted_solver st ov x) p) self = Inr self'"
      by (simp add: step r)
    show "config self' = config self" using c by simp
    show "declared (solver self') = declared (solver self) @ map (declares (config self) p) (m # ms)"
      using d by simp
    show "rows (solver self') = rows (solver self)" using w by simp
    show "variables self' = (variables self)(product_id p \<mapsto> by_month')" using v by simp
    show "\<forall>k. k \<in> set (m # ms) \<or> by_month k \<noteq> None \<longrightarrow> by_month' k \<noteq> None"
      using k by auto
  qed
qed

lemma months_ge_1: "m \<in> set (months self) \<Longrightarrow> 1 \<le> m"
  by (simp add: months_def)

lemma months_config: "config self' = config self \<Longrightarrow> months self' = months self"
  by (simp add: months_def)

lemma product_loop_scripted:
  "\<exists>self'.
      for_each ps
        (\<lambda>p self. for_each (months self) (variable_body (scripted_solver st ov x) p)
                     (self\<lparr>variables := (variables self)(product_id p \<mapsto> Map.empty)\<rparr>)) self
        = Inr self'
    \<and> config self' = config self
    \<and> declared (solver self') =
        declared (solver self) @ concat (map (\<lambda>p. map (declares (config self) p) (months self)) ps)
    \<and> rows (solver self') = rows (solver self)
    \<and> (\<forall>pid. pid \<in> product_id ` set ps \<or> registered self pid \<longrightarrow> registered self' pid)"
proof (induction ps arbitrary: self)
  case Nil
  show ?case by simp
next
  case (Cons p ps)
  let ?start = "self\<lparr>variables := (variables self)(product_id p \<mapsto> Map.empty)\<rparr>"
  have ms: "months ?start = months self" by (simp add: months_def)
  have "\<forall>m\<in>set (months self). 1 \<le> m" by (simp add: months_ge_1)
  moreover have "variables ?start (product_id p) = Some Map.empty" by simp
  ultimately obtain self1 by_month where
    r1: "for_each (months self) (variable_body (scripted_solver st ov x) p) ?start = Inr self1"
    and c1: "config self1 = config ?start"
    and d1: "declared (solver self1) =
        declared (solver ?start) @ map (declares (config ?start) p) (months self)"
    and w1: "rows (solver self1) = rows (solver ?start)"
    and v1: "variables self1 = (variables ?start)(product_id p \<mapsto> by_month)"
    and k1: "\<forall>m. m \<in> set (months self) \<or> Map.empty m \<noteq> None \<longrightarrow> by_month m \<noteq> None"
    using month_loop_scripted [of "months self" ?start p Map.empty st ov x] by blast
  have m1: "months self1 = months self" using c1 by (simp add: months_def)
  obtain self' where
    r: "for_each ps
        (\<lambda>p self. for_each (months self) (variable_body (scripted_solver st ov x) p)
                     (self\<lparr>variables := (variables self)(product_id p \<mapsto> Map.empty)\<rparr>)) self1
        = Inr self'"
    and c: "config self' = config self1"
    and d: "declared (solver self') =
        declared (solver self1) @ concat (map (\<lambda>p. map (declares (config self1) p) (months self1)) ps)"
    and w: "rows (solver self') = rows (solver self1)"
    and k: "\<forall>pid. pid \<in> product_id ` set ps \<or> registered self1 pid \<longrightarrow> registered self' pid"
    using Cons.IH [of self1] by blast
  have reg1: "registered self1 pid" if "pid = product_id p \<or> registered self pid" for pid
  proof (cases "pid = product_id p")
    case True
    then show ?thesis using v1 k1 by (simp add: registered_def m1)
  next
    case False
    with that have "registered self pid" by simp
    then show ?thesis using False v1 by (simp add: registered_def m1)
  qed
  show ?case
  proof (intro exI conjI)
    show "for_each (p # ps)
        (\<lambda>p self. for_each (months self) (variable_body (scripted_solver st ov x) p)
                     (self\<lparr>variables := (variables self)(product_id p \<mapsto> Map.empty)\<rparr>)) self
        = Inr self'"
      by (simp add: r1 r)
    show "config self' = config self" using c c1 by simp
    show "declared (solver self') =
        declared (solver self) @ concat (map (\<lambda>p. map (declares (config self) p) (months self)) (p # ps))"
      using d d1 c1 m1 by simp
    show "rows (solver self') = rows (solver self)" using w w1 by simp
    show "\<forall>pid. pid \<in> product_id ` set (p # ps) \<or> registered self pid \<longrightarrow> registered self' pid"
      using k reg1 by auto
  qed
qed

lemma create_variables_scripted:
  "\<exists>self'.
      create_variables (scripted_solver st ov x) products self = Inr self'
    \<and> config self' = config self
    \<and> declared (solver self') =
        declared (solver self) @ concat (map (\<lambda>p. map (declares (config self) p) (months self)) products)
    \<and> rows (solver self') = rows (solver self)
    \<and> (\<forall>p\<in>set products. registered self' (product_id p))"
proof -
  let ?start = "self\<lparr>variables := Map.empty\<rparr>"
  from product_loop_scripted [of products st ov x ?start]
  show ?thesis
    by (auto simp: create_variables_def months_def)
qed

lemma variable_body_needs_entry:
  "variables self (product_id p) = None \<Longrightarrow>
   variable_body (scripted_solver st ov x) p m self \<noteq> Inr self'"
  by (simp add: variable_body_def scripted_solver_def Let_def split: sum.splits)

lemma variable_body_linked:
  assumes "1 \<le> m" and "p \<in> P" and "linked P self \<and> config self = cfg"
    and "variable_body (scripted_solver st ov x) p m self = Inr self'"
  shows "linked P self' \<and> config self' = cfg"
proof (cases "variables self (product_id p)")
  case None
  with assms(4) show ?thesis using variable_body_needs_entry by blast
next
  case (Some by_month)
  from assms(4) variable_body_scripted [OF assms(1) Some, of st ov x]
  have self': "self' = self\<lparr>solver := (solver self)\<lparr>declared := declared (solver self) @ [declares (config self) p m]\<rparr>,
              variables := (variables self)(product_id p \<mapsto> by_month(m \<mapsto> length (declared (solver self))))\<rparr>"
    by simp
  from assms(3) have l: "linked P self" and c: "config self = cfg" by simp_all
  have "linked P self'"
    unfolding linked_def
  proof (intro allI impI)
    fix pid d k v
    assume a: "variables self' pid = Some d" and b: "d k = Some v"
    show "v < length (declared (solver self'))
        \<and> (\<exists>q\<in>P. product_id q = pid \<and> declared (solver self') ! v = declares (config self') q k)"
    proof (cases "pid = product_id p \<and> k = m")
      case True
      with a b have "v = length (declared (solver self))" by (auto simp: self')
      then show ?thesis using True assms(2) by (auto simp: self')
    next
      case False
      then have "\<exists>d0. variables self pid = Some d0 \<and> d0 k = Some v"
        using a b Some by (auto simp: self' split: if_splits)
      then obtain d0 where "variables self pid = Some d0" "d0 k = Some v" by blast
      with l have "v < length (declared (solver self))
        \<and> (\<exists>q\<in>P. product_id q = pid \<and> declared (solver self) ! v = declares (config self) q k)"
        unfolding linked_def by blast
      then show ?thesis by (auto simp: self' nth_append)
    qed
  qed
  then show ?thesis by (simp add: self' c)
qed

lemma month_loop_linked:
  assumes "for_each ms (variable_body (scripted_solver st ov x) p) self = Inr self'"
    and "linked P self \<and> config self = cfg" and "p \<in> P" and "\<forall>m\<in>set ms. 1 \<le> m"
  shows "linked P self' \<and> config self' = cfg"
  using assms(1,2)
proof (rule for_each_invariant)
  fix m t t'
  assume "m \<in> set ms" and "linked P t \<and> config t = cfg"
    and "variable_body (scripted_solver st ov x) p m t = Inr t'"
  then show "linked P t' \<and> config t' = cfg"
    using variable_body_linked [of m p P t cfg st ov x t'] assms(3,4) by blast
qed

lemma linked_reset:
  "linked P self \<Longrightarrow> linked P (self\<lparr>variables := (variables self)(pid \<mapsto> Map.empty)\<rparr>)"
  unfolding linked_def by (auto split: if_splits)

lemma create_variables_linked:
  assumes "create_variables (scripted_solver st ov x) products self = Inr self'"
  shows "linked (set products) self' \<and> config self' = config self"
proof -
  let ?I = "\<lambda>t. linked (set products) t \<and> config t = config self"
  have start: "?I (self\<lparr>variables := Map.empty\<rparr>)" by (simp add: linked_def)
  from assms have loop: "for_each products
       (\<lambda>p self. for_each (months self) (variable_body (scripted_solver st ov x) p)
                    (self\<lparr>variables := (variables self)(product_id p \<mapsto> Map.empty)\<rparr>))
       (self\<lparr>variables := Map.empty\<rparr>) = Inr self'"
    by (simp add: create_variables_def)
  from loop start show ?thesis
  proof (rule for_each_invariant)
    fix p t t'
    assume p: "p \<in> set products" and t: "?I t"
      and body: "for_each (months t) (variable_body (scripted_solver st ov x) p)
                    (t\<lparr>variables := (variables t)(product_id p \<mapsto> Map.empty)\<rparr>) = Inr t'"
    have "?I (t\<lparr>variables := (variables t)(product_id p \<mapsto> Map.empty)\<rparr>)"
      using t by (simp add: linked_reset)
    with body show "?I t'"
      using month_loop_linked [OF body _ p] months_ge_1 by blast
  qed
qed

lemma for_each_total:
  assumes "\<And>x s. x \<in> set xs \<Longrightarrow> I s \<Longrightarrow> body x s = Inr (f x s) \<and> I (f x s)" and "I s"
  shows "for_each xs body s = Inr (fold f xs s) \<and> I (fold f xs s)"
  using assms
proof (induction xs arbitrary: s)
  case Nil
  then show ?case by simp
next
  case (Cons x xs)
  have b: "body x s = Inr (f x s)" and i: "I (f x s)"
    using Cons.prems(1) [of x s] Cons.prems(2) by simp_all
  have "for_each xs body (f x s) = Inr (fold f xs (f x s)) \<and> I (fold f xs (f x s))"
  proof (rule Cons.IH)
    show "body y t = Inr (f y t) \<and> I (f y t)" if "y \<in> set xs" "I t" for y t
      using Cons.prems(1) [of y t] that by simp
    show "I (f x s)" by (rule i)
  qed
  then show ?case by (simp add: b)
qed

lemma py_sum_total:
  assumes "\<And>x. x \<in> set xs \<Longrightarrow> term x = Inr (g x)"
  shows "py_sum xs term = Inr (fold (\<lambda>x acc. Plus acc (g x)) xs (Num 0))"
proof -
  have "for_each xs (\<lambda>x acc. case term x of Inl e \<Rightarrow> Inl e | Inr t \<Rightarrow> Inr (Plus acc t)) (Num 0)
      = Inr (fold (\<lambda>x acc. Plus acc (g x)) xs (Num 0)) \<and> True"
    by (rule for_each_total [where I = "\<lambda>s. True"]) (simp_all add: assms)
  then show ?thesis by (simp add: py_sum_def)
qed

lemma eval_fold_Plus:
  "eval a (fold (\<lambda>x acc. Plus acc (g x)) xs e) = eval a e + (\<Sum>x\<leftarrow>xs. eval a (g x))"
  by (induction xs arbitrary: e) simp_all

lemma var_at_registered:
  assumes "registered self pid" and "m \<in> set (months self)"
  shows "var_at self pid m = Inr (handle self pid m)"
  using assms by (auto simp: registered_def var_at_def handle_def)

lemma times_var_registered:
  assumes "registered self pid" and "m \<in> set (months self)"
  shows "times_var self c pid m = Inr (Times c (handle self pid m))"
  using assms by (simp add: times_var_def var_at_registered)

lemma same_variables:
  assumes "variables t = variables self" and "config t = config self"
  shows "registered t = registered self" and "handle t = handle self"
    and "times_var t = times_var self" and "months t = months self"
  using assms
  by (auto simp: registered_def handle_def times_var_def var_at_def months_def fun_eq_iff)

lemma py_sum_products:
  assumes "\<forall>p\<in>set products. registered self (product_id p)" and "m \<in> set (months self)"
  shows "py_sum products (\<lambda>p. times_var self (coefficient p) (product_id p) m)
    = Inr (weighted self coefficient products m)"
  unfolding weighted_def
  by (rule py_sum_total) (simp add: times_var_registered assms)

lemma eval_weighted:
  "eval a (weighted self coefficient products m)
    = (\<Sum>p\<leftarrow>products. coefficient p * a (handle self (product_id p) m))"
  by (simp add: weighted_def eval_fold_Plus)

lemma objective_body_total:
  assumes "\<forall>p\<in>set products. registered self (product_id p)" and "m \<in> set (months self)"
  shows "\<exists>terms'. objective_body products m (self, terms) = Inr (self, terms')"
proof -
  have margins: "for_each products
      (\<lambda>p terms. case times_var self (product_margin p) (product_id p) m of
                    Inl e \<Rightarrow> Inl e | Inr t \<Rightarrow> Inr (terms @ [t])) terms
    = Inr (fold (\<lambda>p terms. terms @ [Times (product_margin p) (handle self (product_id p) m)])
             products terms)
      \<and> True"
    by (rule for_each_total [where I = "\<lambda>s. True"])
       (simp_all add: times_var_registered assms)
  show ?thesis
    by (simp add: objective_body_def margins py_sum_products [OF assms] Let_def)
qed

lemma create_objective_scripted:
  assumes "\<forall>p\<in>set products. registered self (product_id p)"
  shows "\<exists>e. create_objective (scripted_solver st ov x) products self
    = Inr (self\<lparr>solver := (solver self)\<lparr>objective := Some e\<rparr>\<rparr>)"
proof -
  define step where "step m s = (case objective_body products m s of Inr s' \<Rightarrow> s' | Inl e \<Rightarrow> s)"
    for m and s :: "lp_model optimizer \<times> lin_expr list"
  have "for_each (months self) (objective_body products) (self, [])
      = Inr (fold step (months self) (self, [])) \<and> fst (fold step (months self) (self, [])) = self"
  proof (rule for_each_total [where I = "\<lambda>s. fst s = self"])
    fix m and s :: "lp_model optimizer \<times> lin_expr list"
    assume m: "m \<in> set (months self)" and s: "fst s = self"
    obtain terms' where "objective_body products m (self, snd s) = Inr (self, terms')"
      using objective_body_total [OF assms m] by blast
    then have "objective_body products m s = Inr (self, terms')"
      using s by (cases s) simp
    then show "objective_body products m s = Inr (step m s) \<and> fst (step m s) = self"
      by (simp add: step_def)
  qed simp
  then obtain terms where "for_each (months self) (objective_body products) (self, [])
      = Inr (self, terms)"
    by (cases "fold step (months self) (self, [])") auto
  then show ?thesis
    by (auto simp: create_objective_def scripted_solver_def)
qed

lemma py_sum_warehouse:
  assumes "\<forall>p\<in>set products. registered self (product_id p)"
  shows "py_sum products (\<lambda>p. py_sum (months self) (\<lambda>month.
             times_var self (size_cm3 p / 1000000) (product_id p) month))
    = Inr (warehouse_expr self products)"
  unfolding warehouse_expr_def
proof (rule py_sum_total)
  fix p assume "p \<in> set products"
  then have r: "registered self (product_id p)" using assms by simp
  show "py_sum (months self) (\<lambda>month. times_var self (size_cm3 p / 1000000) (product_id p) month)
    = Inr (fold (\<lambda>m acc. Plus acc (Times (size_cm3 p / 1000000) (handle self (product_id p) m)))
             (months self) (Num 0))"
    by (rule py_sum_total) (simp add: times_var_registered r)
qed

lemma sum_list_swap:
  "(\<Sum>x\<leftarrow>xs. \<Sum>y\<leftarrow>ys. f x y) = (\<Sum>y\<leftarrow>ys. \<Sum>x\<leftarrow>xs. (f x y :: real))"
  by (induction xs) (simp_all add: sum_list_addf)

lemma eval_warehouse_expr:
  "eval a (warehouse_expr self products)
    = (\<Sum>m\<leftarrow>months self. \<Sum>p\<leftarrow>products.
         (size_cm3 p / 1000000) * a (handle self (product_id p) m))"
  by (simp add: warehouse_expr_def eval_fold_Plus sum_list_swap [of _ "months self"])

lemma add_constraint_scripted:
  "add_constraint (scripted_solver st ov x) (Inr ex) b l self
    = Inr (self\<lparr>solver := (solver self)\<lparr>rows := rows (solver self) @ [(\<lparr>lhs = ex, upper = b\<rparr>, l)]\<rparr>\<rparr>)"
  by (simp add: add_constraint_def scripted_solver_def)

lemma add_loop:
  fixes self :: "lp_model optimizer"
  assumes "\<And>m t. m \<in> set ms \<Longrightarrow> variables t = variables self \<Longrightarrow> config t = config self \<Longrightarrow>
      body m t = Inr (t\<lparr>solver := (solver t)\<lparr>rows := rows (solver t) @ [R m]\<rparr>\<rparr>)"
  shows "for_each ms body self
    = Inr (self\<lparr>solver := (solver self)\<lparr>rows := rows (solver self) @ map R ms\<rparr>\<rparr>)"
  using assms
proof (induction ms arbitrary: self)
  case Nil
  show ?case by simp
next
  case (Cons m ms)
  let ?t = "self\<lparr>solver := (solver self)\<lparr>rows := rows (solver self) @ [R m]\<rparr>\<rparr>"
  have b: "body m self = Inr ?t" using Cons.prems [of m self] by simp
  have "for_each ms body ?t
      = Inr (?t\<lparr>solver := (solver ?t)\<lparr>rows := rows (solver ?t) @ map R ms\<rparr>\<rparr>)"
  proof (rule Cons.IH)
    fix k and t :: "lp_model optimizer"
    assume "k \<in> set ms" "variables t = variables ?t" "config t = config ?t"
    then show "body k t = Inr (t\<lparr>solver := (solver t)\<lparr>rows := rows (solver t) @ [R k]\<rparr>\<rparr>)"
      using Cons.prems [of k t] by simp
  qed
  then show ?case by (simp add: b)
qed

lemma constraint_loop:
  fixes self :: "lp_model optimizer"
  assumes "\<forall>p\<in>set products. registered self (product_id p)"
    and "\<And>t. config t = config self \<Longrightarrow> bound t = bound self"
  shows "for_each (months self)
      (\<lambda>month t. add_constraint (scripted_solver st ov x)
         (py_sum products (\<lambda>p. times_var t (coefficient p) (product_id p) month))
         (bound t) (label @ str_int month) t) self
    = Inr (self\<lparr>solver := (solver self)\<lparr>rows := rows (solver self)
        @ map (\<lambda>m. (\<lparr>lhs = weighted self coefficient products m, upper = bound self\<rparr>,
                     label @ str_int m)) (months self)\<rparr>\<rparr>)"
proof (rule add_loop)
  fix m and t :: "lp_model optimizer"
  assume m: "m \<in> set (months self)" and v: "variables t = variables self"
    and c: "config t = config self"
  have "py_sum products (\<lambda>p. times_var t (coefficient p) (product_id p) m)
      = Inr (weighted self coefficient products m)"
    using py_sum_products [OF assms(1) m, of coefficient]
    by (simp add: same_variables(3) [OF v c])
  then show "add_constraint (scripted_solver st ov x)
         (py_sum products (\<lambda>p. times_var t (coefficient p) (product_id p) m))
         (bound t) (label @ str_int m) t
    = Inr (t\<lparr>solver := (solver t)\<lparr>rows := rows (solver t)
        @ [(\<lparr>lhs = weighted self coefficient products m, upper = bound self\<rparr>,
            label @ str_int m)]\<rparr>\<rparr>)"
    by (simp add: add_constraint_scripted assms(2) [OF c])
qed

lemma create_constraints_scripted:
  fixes self :: "lp_model optimizer"
  assumes "\<forall>p\<in>set products. registered self (product_id p)"
  shows "create_constraints (scripted_solver st ov x) products self
    = Inr (self\<lparr>solver := (solver self)\<lparr>rows := rows (solver self)
        @ map (budget_row self products) (months self)
        @ [warehouse_row self products]
        @ map (weight_row self products) (months self)
        @ map (volume_row self products) (months self)\<rparr>\<rparr>)"
proof -
  let ?api = "scripted_solver st ov x"
  define self1 where "self1 = self\<lparr>solver := (solver self)\<lparr>rows := rows (solver self)
        @ map (budget_row self products) (months self)\<rparr>\<rparr>"
  define self2 where "self2 = self1\<lparr>solver := (solver self1)\<lparr>rows := rows (solver self1)
        @ [warehouse_row self products]\<rparr>\<rparr>"
  define self3 where "self3 = self2\<lparr>solver := (solver self2)\<lparr>rows := rows (solver self2)
        @ map (weight_row self products) (months self)\<rparr>\<rparr>"
  have v1: "variables self1 = variables self" "config self1 = config self"
    by (simp_all add: self1_def)
  have v2: "variables self2 = variables self" "config self2 = config self"
    by (simp_all add: self2_def v1)
  have v3: "variables self3 = variables self" "config self3 = config self"
    by (simp_all add: self3_def v2)
  note s1 = same_variables [OF v1] and s2 = same_variables [OF v2] and s3 = same_variables [OF v3]
  have r2: "\<forall>p\<in>set products. registered self2 (product_id p)" using assms by (simp add: s2)
  have r3: "\<forall>p\<in>set products. registered self3 (product_id p)" using assms by (simp add: s3)
  have w2: "weighted self2 = weighted self" "weighted self3 = weighted self"
    by (simp_all add: weighted_def fun_eq_iff s2 s3)
  have l1: "for_each (months self)
      (\<lambda>month t. add_constraint ?api
         (py_sum products (\<lambda>p. times_var t (wholesale_price p) (product_id p) month))
         (budget_per_month (config t)) (''budget_m'' @ str_int month) t) self = Inr self1"
    using constraint_loop [of products self "\<lambda>t. budget_per_month (config t)" st ov x
        wholesale_price "''budget_m''"] assms
    by (simp add: self1_def budget_row_def)
  have wh: "add_constraint ?api
      (py_sum products (\<lambda>p. py_sum (months self1) (\<lambda>month.
         times_var self1 (size_cm3 p / 1000000) (product_id p) month)))
      (warehouse_capacity_m3 (config self1)) ''warehouse_capacity'' self1 = Inr self2"
    using py_sum_warehouse [OF assms]
    by (simp add: s1 add_constraint_scripted self2_def warehouse_row_def v1)
  have l3: "for_each (months self2)
      (\<lambda>month t. add_constraint ?api
         (py_sum products (\<lambda>p. times_var t (weight_g p / 1000) (product_id p) month))
         (max_weight_kg (shipping (config t))) (''shipping_weight_m'' @ str_int month) t) self2
      = Inr self3"
    using constraint_loop [of products self2 "\<lambda>t. max_weight_kg (shipping (config t))" st ov x
        "\<lambda>p. weight_g p / 1000" "''shipping_weight_m''"] r2
    by (simp add: self3_def weight_row_def w2 s2 v2)
  have l4: "for_each (months self3)
      (\<lambda>month t. add_constraint ?api
         (py_sum products (\<lambda>p. times_var t (size_cm3 p / 1000000) (product_id p) month))
         (max_volume_m3 (shipping (config t))) (''shipping_volume_m'' @ str_int month) t) self3
      = Inr (self3\<lparr>solver := (solver self3)\<lparr>rows := rows (solver self3)
        @ map (volume_row self products) (months self)\<rparr>\<rparr>)"
    using constraint_loop [of products self3 "\<lambda>t. max_volume_m3 (shipping (config t))" st ov x
        "\<lambda>p. size_cm3 p / 1000000" "''shipping_volume_m''"] r3
    by (simp add: volume_row_def w2 s3 v3)
  show ?thesis
    unfolding create_constraints_def
    by (simp only: l1 wh l3 l4 sum.case) (simp add: self3_def self2_def self1_def)
qed

lemma months_new_optimizer: "months (new_optimizer cfg s) = [1..planning_months cfg]"
  by (simp add: months_def new_optimizer_def)

lemma linked_same:
  assumes "linked P self" and "variables t = variables self" and "config t = config self"
    and "declared (solver t) = declared (solver self)"
  shows "linked P t"
  using assms unfolding linked_def by simp

lemma rows_same:
  assumes "variables t = variables self" and "config t = config self"
  shows "budget_row t = budget_row self" and "warehouse_row t = warehouse_row self"
    and "weight_row t = weight_row self" and "volume_row t = volume_row self"
  using same_variables [OF assms]
  by (simp_all add: budget_row_def warehouse_row_def weight_row_def volume_row_def weighted_def
      warehouse_expr_def fun_eq_iff assms)

lemma build_model_scripted:
  "\<exists>self. build_model (scripted_solver st ov x) products (new_optimizer cfg empty_model) = Inr self
     \<and> config self = cfg
     \<and> months self = [1..planning_months cfg]
     \<and> declared (solver self) =
         concat (map (\<lambda>p. map (declares cfg p) [1..planning_months cfg]) products)
     \<and> rows (solver self) =
         map (budget_row self products) [1..planning_months cfg]
         @ [warehouse_row self products]
         @ map (weight_row self products) [1..planning_months cfg]
         @ map (volume_row self products) [1..planning_months cfg]
     \<and> (\<forall>p\<in>set products. registered self (product_id p))
     \<and> linked (set products) self"
proof -
  let ?api = "scripted_solver st ov x"
  let ?s0 = "new_optimizer cfg empty_model"
  let ?ms = "[1..planning_months cfg]"
  have c0: "config ?s0 = cfg" "declared (solver ?s0) = []" "rows (solver ?s0) = []"
    by (simp_all add: new_optimizer_def empty_model_def)
  obtain self1 where
    v: "create_variables ?api products ?s0 = Inr self1"
    and c1: "config self1 = cfg"
    and d1: "declared (solver self1) = concat (map (\<lambda>p. map (declares cfg p) ?ms) products)"
    and w1: "rows (solver self1) = []"
    and r1: "\<forall>p\<in>set products. registered self1 (product_id p)"
    using create_variables_scripted [of st ov x products ?s0]
    by (auto simp: c0 months_new_optimizer)
  have l1: "linked (set products) self1"
    using create_variables_linked [OF v] by simp
  obtain e where o: "create_objective ?api products self1
      = Inr (self1\<lparr>solver := (solver self1)\<lparr>objective := Some e\<rparr>\<rparr>)"
    using create_objective_scripted [OF r1] by blast
  define self2 where "self2 = self1\<lparr>solver := (solver self1)\<lparr>objective := Some e\<rparr>\<rparr>"
  have s2: "variables self2 = variables self1" "config self2 = config self1"
    "declared (solver self2) = declared (solver self1)" "rows (solver self2) = rows (solver self1)"
    by (simp_all add: self2_def)
  have r2: "\<forall>p\<in>set products. registered self2 (product_id p)"
    using r1 by (simp add: same_variables(1) [OF s2(1,2)])
  have m2: "months self2 = ?ms" using c1 s2(2) by (simp add: months_def)
  define self3 where "self3 = self2\<lparr>solver := (solver self2)\<lparr>rows := rows (solver self2)
        @ map (budget_row self2 products) (months self2)
        @ [warehouse_row self2 products]
        @ map (weight_row self2 products) (months self2)
        @ map (volume_row self2 products) (months self2)\<rparr>\<rparr>"
  have c: "create_constraints ?api products self2 = Inr self3"
    unfolding self3_def by (rule create_constraints_scripted [OF r2])
  have s3: "variables self3 = variables self2" "config self3 = config self2"
    "declared (solver self3) = declared (solver self2)"
    by (simp_all add: self3_def)
  have b: "build_model ?api products ?s0 = Inr self3"
    by (simp add: build_model_def v o c self2_def [symmetric])
  show ?thesis
  proof (intro exI [of _ self3] conjI)
    show "build_model ?api products ?s0 = Inr self3" by (rule b)
    show "config self3 = cfg" by (simp add: s3 s2 c1)
    show "months self3 = ?ms" by (simp add: months_def s3 s2 c1)
    show "declared (solver self3) = concat (map (\<lambda>p. map (declares cfg p) ?ms) products)"
      by (simp add: s3 s2 d1)
    show "rows (solver self3) = map (budget_row self3 products) ?ms
         @ [warehouse_row self3 products]
         @ map (weight_row self3 products) ?ms @ map (volume_row self3 products) ?ms"
      by (simp add: rows_same [OF s3(1,2)]) (simp add: self3_def s2 w1 m2)
    show "\<forall>p\<in>set products. registered self3 (product_id p)"
      using r2 by (simp add: same_variables(1) [OF s3(1,2)])
    show "linked (set products) self3"
      by (rule linked_same [OF linked_same [OF l1 s2(1,2,3)] s3])
  qed
qed




lemma holds_budget_row:
  "holds a (fst (budget_row self products m))
    \<longleftrightarrow> spec_budget (config self) products (\<lambda>pid k. a (handle self pid k)) m"
  by (simp add: holds_def budget_row_def spec_budget_def eval_weighted)

lemma holds_weight_row:
  "holds a (fst (weight_row self products m))
    \<longleftrightarrow> spec_shipping_weight (config self) products (\<lambda>pid k. a (handle self pid k)) m"
  by (simp add: holds_def weight_row_def spec_shipping_weight_def eval_weighted)

lemma holds_volume_row:
  "holds a (fst (volume_row self products m))
    \<longleftrightarrow> spec_shipping_volume (config self) products (\<lambda>pid k. a (handle self pid k)) m"
  by (simp add: holds_def volume_row_def spec_shipping_volume_def eval_weighted)

lemma holds_warehouse_row:
  "holds a (fst (warehouse_row self products))
    \<longleftrightarrow> spec_warehouse (config self) products (\<lambda>pid k. a (handle self pid k))"
  by (simp add: holds_def warehouse_row_def spec_warehouse_def eval_warehouse_expr months_def)

text \<open>
  C3. The constraints of the model a fresh optimizer builds are, in this order: one budget
  constraint for every month 1..planning_months, one warehouse constraint, one shipping
  weight constraint for every month and one shipping volume constraint for every month, and
  no other. An assignment of values to the variables satisfies each of them exactly when
  the quantities satisfy the specification's inequality: the month's cost against
  \<open>budget_per_month\<close>, the volume of all months together against
  \<open>warehouse_capacity_m3\<close>, the month's weight against \<open>max_weight_kg\<close> and the month's
  volume against \<open>max_volume_m3\<close>.
\<close>

theorem constraints_of_model:
  "\<exists>self budget warehouse weight volume.
     build_model (scripted_solver st ov x) products (new_optimizer cfg empty_model) = Inr self
   \<and> rows (solver self) =
       map (\<lambda>m. (budget m, ''budget_m'' @ str_int m)) [1..planning_months cfg]
       @ [(warehouse, ''warehouse_capacity'')]
       @ map (\<lambda>m. (weight m, ''shipping_weight_m'' @ str_int m)) [1..planning_months cfg]
       @ map (\<lambda>m. (volume m, ''shipping_volume_m'' @ str_int m)) [1..planning_months cfg]
   \<and> length (rows (solver self)) = 3 * nat (planning_months cfg) + 1
   \<and> (\<forall>p\<in>set products. \<forall>m\<in>set [1..planning_months cfg].
         var_at self (product_id p) m = Inr (handle self (product_id p) m))
   \<and> (\<forall>a. (holds a warehouse \<longleftrightarrow> spec_warehouse cfg products (\<lambda>pid m. a (handle self pid m)))
         \<and> (\<forall>m\<in>set [1..planning_months cfg].
              (holds a (budget m) \<longleftrightarrow> spec_budget cfg products (\<lambda>pid k. a (handle self pid k)) m)
            \<and> (holds a (weight m)
                 \<longleftrightarrow> spec_shipping_weight cfg products (\<lambda>pid k. a (handle self pid k)) m)
            \<and> (holds a (volume m)
                 \<longleftrightarrow> spec_shipping_volume cfg products (\<lambda>pid k. a (handle self pid k)) m)))"
proof -
  let ?ms = "[1..planning_months cfg]"
  obtain self where
    b: "build_model (scripted_solver st ov x) products (new_optimizer cfg empty_model) = Inr self"
    and c: "config self = cfg"
    and ms: "months self = ?ms"
    and w: "rows (solver self) = map (budget_row self products) ?ms
         @ [warehouse_row self products]
         @ map (weight_row self products) ?ms @ map (volume_row self products) ?ms"
    and r: "\<forall>p\<in>set products. registered self (product_id p)"
    using build_model_scripted [of st ov x products cfg] by blast
  define budget where "budget m = fst (budget_row self products m)" for m
  define weight where "weight m = fst (weight_row self products m)" for m
  define volume where "volume m = fst (volume_row self products m)" for m
  define warehouse where "warehouse = fst (warehouse_row self products)"
  have rows: "rows (solver self) =
       map (\<lambda>m. (budget m, ''budget_m'' @ str_int m)) ?ms
       @ [(warehouse, ''warehouse_capacity'')]
       @ map (\<lambda>m. (weight m, ''shipping_weight_m'' @ str_int m)) ?ms
       @ map (\<lambda>m. (volume m, ''shipping_volume_m'' @ str_int m)) ?ms"
  proof -
    have "budget_row self products = (\<lambda>m. (budget m, ''budget_m'' @ str_int m))"
      "weight_row self products = (\<lambda>m. (weight m, ''shipping_weight_m'' @ str_int m))"
      "volume_row self products = (\<lambda>m. (volume m, ''shipping_volume_m'' @ str_int m))"
      "warehouse_row self products = (warehouse, ''warehouse_capacity'')"
      by (simp_all add: fun_eq_iff budget_def weight_def volume_def warehouse_def
          budget_row_def weight_row_def volume_row_def warehouse_row_def)
    then show ?thesis by (simp only: w)
  qed
  have len: "length (rows (solver self)) = 3 * nat (planning_months cfg) + 1"
    by (simp add: w)
  have vars: "\<forall>p\<in>set products. \<forall>m\<in>set ?ms.
         var_at self (product_id p) m = Inr (handle self (product_id p) m)"
    using r ms by (simp add: var_at_registered)
  have sem: "\<forall>a. (holds a warehouse \<longleftrightarrow> spec_warehouse cfg products (\<lambda>pid m. a (handle self pid m)))
         \<and> (\<forall>m\<in>set ?ms.
              (holds a (budget m) \<longleftrightarrow> spec_budget cfg products (\<lambda>pid k. a (handle self pid k)) m)
            \<and> (holds a (weight m)
                 \<longleftrightarrow> spec_shipping_weight cfg products (\<lambda>pid k. a (handle self pid k)) m)
            \<and> (holds a (volume m)
                 \<longleftrightarrow> spec_shipping_volume cfg products (\<lambda>pid k. a (handle self pid k)) m))"
    using holds_budget_row [of _ self products] holds_weight_row [of _ self products]
      holds_volume_row [of _ self products] holds_warehouse_row [of _ self products]
    by (simp add: budget_def weight_def volume_def warehouse_def c)
  from b rows len vars sem show ?thesis by blast
qed

lemma upto_1_1: "[1..(1::int)] = [1]"
  by (simp add: upto.simps)





theorem constraints_of_model_witness:
  "\<exists>self budget warehouse weight volume.
     build_model (scripted_solver OPTIMAL 895 (\<lambda>v. 100)) [example_product 100]
       (new_optimizer example_config empty_model) = Inr self
   \<and> rows (solver self) =
       [(budget (1::int), ''budget_m1''), (warehouse, ''warehouse_capacity''),
        (weight (1::int), ''shipping_weight_m1''), (volume (1::int), ''shipping_volume_m1'')]
   \<and> length (rows (solver self)) = 4
   \<and> var_at self ''P1'' 1 = Inr (handle self ''P1'' 1)
   \<and> holds (\<lambda>v. 100) (budget 1) \<and> \<not> holds (\<lambda>v. 101) (budget 1)
   \<and> holds (\<lambda>v. 100) warehouse \<and> holds (\<lambda>v. 100) (weight 1) \<and> holds (\<lambda>v. 100) (volume 1)"
proof -
  let ?ps = "[example_product 100]"
  have n: "planning_months example_config = 1" by (simp add: example_config_def)
  have s1: "str_int 1 = ''1''" by (simp add: str_int_def)
  have pid: "product_id (example_product 100) = ''P1''" by (simp add: example_product_def)
  have "\<exists>self budget warehouse weight volume.
      build_model (scripted_solver OPTIMAL 895 (\<lambda>v. 100)) ?ps
       (new_optimizer example_config empty_model) = Inr self
    \<and> rows (solver self) =
       [(budget (1::int), ''budget_m1''), (warehouse, ''warehouse_capacity''),
        (weight (1::int), ''shipping_weight_m1''), (volume (1::int), ''shipping_volume_m1'')]
    \<and> length (rows (solver self)) = 4
    \<and> var_at self ''P1'' 1 = Inr (handle self ''P1'' 1)
    \<and> (\<forall>a. (holds a warehouse \<longleftrightarrow>
            spec_warehouse example_config ?ps (\<lambda>pid m. a (handle self pid m)))
          \<and> (holds a (budget 1) \<longleftrightarrow>
            spec_budget example_config ?ps (\<lambda>pid k. a (handle self pid k)) 1)
          \<and> (holds a (weight 1) \<longleftrightarrow>
            spec_shipping_weight example_config ?ps (\<lambda>pid k. a (handle self pid k)) 1)
          \<and> (holds a (volume 1) \<longleftrightarrow>
            spec_shipping_volume example_config ?ps (\<lambda>pid k. a (handle self pid k)) 1))"
    using constraints_of_model [of OPTIMAL 895 "\<lambda>v. 100" ?ps example_config]
    by (simp add: n upto_1_1 s1 pid)
  then obtain self budget warehouse weight volume where
    b: "build_model (scripted_solver OPTIMAL 895 (\<lambda>v. 100)) ?ps
       (new_optimizer example_config empty_model) = Inr self"
    and rows: "rows (solver self) =
       [(budget (1::int), ''budget_m1''), (warehouse, ''warehouse_capacity''),
        (weight (1::int), ''shipping_weight_m1''), (volume (1::int), ''shipping_volume_m1'')]"
    and len: "length (rows (solver self)) = 4"
    and v: "var_at self ''P1'' 1 = Inr (handle self ''P1'' 1)"
    and sem: "\<forall>a. (holds a warehouse \<longleftrightarrow>
            spec_warehouse example_config ?ps (\<lambda>pid m. a (handle self pid m)))
          \<and> (holds a (budget 1) \<longleftrightarrow>
            spec_budget example_config ?ps (\<lambda>pid k. a (handle self pid k)) 1)
          \<and> (holds a (weight 1) \<longleftrightarrow>
            spec_shipping_weight example_config ?ps (\<lambda>pid k. a (handle self pid k)) 1)
          \<and> (holds a (volume 1) \<longleftrightarrow>
            spec_shipping_volume example_config ?ps (\<lambda>pid k. a (handle self pid k)) 1)"
    by (elim exE conjE)
  have h: "holds (\<lambda>v. 100) (budget 1)" "\<not> holds (\<lambda>v. 101) (budget 1)"
    "holds (\<lambda>v. 100) warehouse" "holds (\<lambda>v. 100) (weight 1)" "holds (\<lambda>v. 100) (volume 1)"
    by (simp_all add: sem spec_budget_def spec_warehouse_def spec_shipping_weight_def
        spec_shipping_volume_def example_config_def example_product_def example_shipping_def
        upto_1_1)
  from b rows len v h show ?thesis by blast
qed


section \<open>Properties of result extraction\<close>

lemma month_body_status:
  "month_body api self products month res = Inr res' \<Longrightarrow> status res' = status res"
  by (auto simp: month_body_def split: sum.splits)

lemma product_total_body_status:
  "product_total_body self p res = Inr res' \<Longrightarrow> status res' = status res"
  by (auto simp: product_total_body_def split: sum.splits if_splits)

lemma month_loop_status:
  assumes "for_each ms (month_body api self products) res = Inr res'"
  shows "status res' = status res"
  using assms
  by (rule for_each_invariant [where I = "\<lambda>r. status r = status res"])
     (simp_all add: month_body_status)

lemma total_loop_status:
  assumes "for_each ps (product_total_body self) res = Inr res'"
  shows "status res' = status res"
  using assms
  by (rule for_each_invariant [where I = "\<lambda>r. status r = status res"])
     (simp_all add: product_total_body_status)

lemma extract_results_status:
  assumes "extract_results api products solver_status self = Inr res"
  shows "status res =
    (if solver_status = OPTIMAL then ''OPTIMAL''
     else if solver_status = FEASIBLE then ''FEASIBLE'' else ''INFEASIBLE'')"
  using assms
  by (auto simp: extract_results_def Let_def split: sum.splits if_splits
      dest!: month_loop_status total_loop_status)

lemma extract_results_unsolved:
  assumes "solver_status \<noteq> OPTIMAL" and "solver_status \<noteq> FEASIBLE"
  shows "extract_results api products solver_status self =
    Inr \<lparr>status = ''INFEASIBLE'', objective_value = 0, purchase_orders = Map.empty,
         monthly_breakdown = Map.empty, product_totals = Map.empty\<rparr>"
  using assms by (simp add: extract_results_def)

text \<open>
  C6. Result extraction gives every solver outcome one status: OPTIMAL and FEASIBLE for
  the solver's two statuses of that name, INFEASIBLE for every other one (it never answers
  ERROR itself). Whenever the status is not OPTIMAL or FEASIBLE the result is the defaults:
  objective value 0 and empty purchase orders, monthly breakdown and product totals; for
  such an outcome the extraction always returns, without calling the solver.
\<close>

theorem extraction_classifies:
  "(extract_results api products solver_status self = Inr res \<longrightarrow>
      status res \<in> {''OPTIMAL'', ''FEASIBLE'', ''INFEASIBLE'', ''ERROR''}
      \<and> (status res = ''OPTIMAL'' \<longleftrightarrow> solver_status = OPTIMAL)
      \<and> (status res = ''FEASIBLE'' \<longleftrightarrow> solver_status = FEASIBLE)
      \<and> (status res \<notin> {''OPTIMAL'', ''FEASIBLE''} \<longrightarrow>
           objective_value res = 0 \<and> purchase_orders res = Map.empty
           \<and> monthly_breakdown res = Map.empty \<and> product_totals res = Map.empty))
   \<and> (solver_status \<notin> {OPTIMAL, FEASIBLE} \<longrightarrow>
        extract_results api products solver_status self =
          Inr \<lparr>status = ''INFEASIBLE'', objective_value = 0, purchase_orders = Map.empty,
               monthly_breakdown = Map.empty, product_totals = Map.empty\<rparr>)"
proof (intro conjI impI)
  assume r: "extract_results api products solver_status self = Inr res"
  note st = extract_results_status [OF r]
  show "status res \<in> {''OPTIMAL'', ''FEASIBLE'', ''INFEASIBLE'', ''ERROR''}"
    by (simp add: st)
  show "(status res = ''OPTIMAL'') = (solver_status = OPTIMAL)" by (simp add: st)
  show "(status res = ''FEASIBLE'') = (solver_status = FEASIBLE)" by (simp add: st)
  assume "status res \<notin> {''OPTIMAL'', ''FEASIBLE''}"
  then have "solver_status \<noteq> OPTIMAL" "solver_status \<noteq> FEASIBLE"
    by (auto simp: st)
  from extract_results_unsolved [OF this, of api products self] r
  have res: "res = \<lparr>status = ''INFEASIBLE'', objective_value = 0, purchase_orders = Map.empty,
         monthly_breakdown = Map.empty, product_totals = Map.empty\<rparr>" by simp
  show "objective_value res = 0" "purchase_orders res = Map.empty"
    "monthly_breakdown res = Map.empty" "product_totals res = Map.empty"
    by (simp_all add: res)
next
  assume "solver_status \<notin> {OPTIMAL, FEASIBLE}"
  then show "extract_results api products solver_status self =
          Inr \<lparr>status = ''INFEASIBLE'', objective_value = 0, purchase_orders = Map.empty,
               monthly_breakdown = Map.empty, product_totals = Map.empty\<rparr>"
    by (simp add: extract_results_unsolved)
qed

theorem extraction_classifies_witness:
  "extract_results (scripted_solver UNBOUNDED 7 (\<lambda>v. 3)) [example_product 100] UNBOUNDED
     (new_optimizer example_config empty_model) =
     Inr \<lparr>status = ''INFEASIBLE'', objective_value = 0, purchase_orders = Map.empty,
          monthly_breakdown = Map.empty, product_totals = Map.empty\<rparr>
   \<and> ''INFEASIBLE'' \<in> {''OPTIMAL'', ''FEASIBLE'', ''INFEASIBLE'', ''ERROR''}
   \<and> ''INFEASIBLE'' \<notin> {''OPTIMAL'', ''FEASIBLE''}"
  using extraction_classifies [of "scripted_solver UNBOUNDED 7 (\<lambda>v. 3)" "[example_product 100]"
      UNBOUNDED "new_optimizer example_config empty_model"
      "\<lparr>status = ''INFEASIBLE'', objective_value = 0, purchase_orders = Map.empty,
          monthly_breakdown = Map.empty, product_totals = Map.empty\<rparr>"]
  by simp


section \<open>Properties of the extracted purchase orders\<close>

lemma find_snoc:
  "find P (xs @ [y]) = (case find P xs of None \<Rightarrow> (if P y then Some y else None) | Some x \<Rightarrow> Some x)"
  by (induction xs) simp_all

lemma order_body_answered:
  assumes "\<And>v. solution_value api (solver self) v = Inr (x v)"
    and "registered self (product_id p)" and "m \<in> set (months self)"
  shows "\<exists>acc'. order_body api self m p acc = Inr acc'
    \<and> orders acc' =
        (if 0 < read_back x self (product_id p) m
         then (orders acc)(product_id p \<mapsto> order_of p (read_back x self (product_id p) m))
         else orders acc)"
  using assms
  by (simp add: order_body_def var_at_registered read_back_def Let_def)

lemma order_loop_answered:
  assumes "\<And>v. solution_value api (solver self) v = Inr (x v)"
    and "\<forall>p\<in>set ps. registered self (product_id p)" and "m \<in> set (months self)"
  shows "\<exists>acc'. for_each ps (order_body api self m) acc = Inr acc'
    \<and> orders acc' = expected_orders x self ps m (orders acc)"
  using assms(2)
proof (induction ps arbitrary: acc)
  case Nil
  show ?case by (simp add: expected_orders_def fun_eq_iff)
next
  case (Cons p ps)
  have rp: "registered self (product_id p)" using Cons.prems by simp
  obtain acc1 where
    b: "order_body api self m p acc = Inr acc1"
    and o1: "orders acc1 =
        (if 0 < read_back x self (product_id p) m
         then (orders acc)(product_id p \<mapsto> order_of p (read_back x self (product_id p) m))
         else orders acc)"
    using order_body_answered [OF assms(1) rp assms(3)] by blast
  have "\<forall>p\<in>set ps. registered self (product_id p)" using Cons.prems by simp
  then obtain acc' where
    r: "for_each ps (order_body api self m) acc1 = Inr acc'"
    and o: "orders acc' = expected_orders x self ps m (orders acc1)"
    using Cons.IH [of acc1] by blast
  have "expected_orders x self ps m (orders acc1) = expected_orders x self (p # ps) m (orders acc)"
    by (auto simp: expected_orders_def fun_eq_iff o1 find_snoc split: option.splits)
  with r o b show ?case by simp
qed

lemma month_body_answered:
  assumes "\<And>v. solution_value api (solver self) v = Inr (x v)"
    and "\<forall>p\<in>set products. registered self (product_id p)" and "m \<in> set (months self)"
  shows "\<exists>bd. month_body api self products m res =
      Inr (res\<lparr>purchase_orders :=
                 (purchase_orders res)(m \<mapsto> expected_orders x self products m Map.empty),
               monthly_breakdown := (monthly_breakdown res)(m \<mapsto> bd)\<rparr>)"
proof -
  obtain acc' where
    "for_each products (order_body api self m)
       \<lparr>orders = Map.empty, month_cost = 0, month_revenue = 0, month_weight = 0,
        month_volume = 0\<rparr> = Inr acc'"
    and "orders acc' = expected_orders x self products m Map.empty"
    using order_loop_answered [OF assms, of "\<lparr>orders = Map.empty, month_cost = 0,
        month_revenue = 0, month_weight = 0, month_volume = 0\<rparr>"]
    by auto
  then show ?thesis by (auto simp: month_body_def)
qed

lemma month_loop_answered:
  assumes "\<And>v. solution_value api (solver self) v = Inr (x v)"
    and "\<forall>p\<in>set products. registered self (product_id p)"
  shows "set ms \<subseteq> set (months self) \<Longrightarrow>
    \<exists>res'. for_each ms (month_body api self products) res = Inr res'
      \<and> purchase_orders res' =
          (\<lambda>k. if k \<in> set ms then Some (expected_orders x self products k Map.empty)
               else purchase_orders res k)
      \<and> status res' = status res \<and> objective_value res' = objective_value res"
proof (induction ms arbitrary: res)
  case Nil
  show ?case by simp
next
  case (Cons m ms)
  have m: "m \<in> set (months self)" using Cons.prems by simp
  obtain bd where b: "month_body api self products m res =
      Inr (res\<lparr>purchase_orders :=
                 (purchase_orders res)(m \<mapsto> expected_orders x self products m Map.empty),
               monthly_breakdown := (monthly_breakdown res)(m \<mapsto> bd)\<rparr>)"
    using month_body_answered [OF assms m] by blast
  let ?res1 = "res\<lparr>purchase_orders :=
                 (purchase_orders res)(m \<mapsto> expected_orders x self products m Map.empty),
               monthly_breakdown := (monthly_breakdown res)(m \<mapsto> bd)\<rparr>"
  have "set ms \<subseteq> set (months self)" using Cons.prems by simp
  then obtain res' where
    r: "for_each ms (month_body api self products) ?res1 = Inr res'"
    and po: "purchase_orders res' =
          (\<lambda>k. if k \<in> set ms then Some (expected_orders x self products k Map.empty)
               else purchase_orders ?res1 k)"
    and st: "status res' = status ?res1" "objective_value res' = objective_value ?res1"
    using Cons.IH [of ?res1] by blast
  show ?case
    by (rule exI [of _ res']) (auto simp: b r po st fun_eq_iff)
qed

lemma for_each_exists:
  assumes "\<And>x s. x \<in> set xs \<Longrightarrow> I s \<Longrightarrow> \<exists>s'. body x s = Inr s' \<and> I s'" and "I s"
  shows "\<exists>s'. for_each xs body s = Inr s' \<and> I s'"
  using assms
proof (induction xs arbitrary: s)
  case Nil
  then show ?case by simp
next
  case (Cons x xs)
  obtain s1 where b: "body x s = Inr s1" and i: "I s1"
    using Cons.prems(1) [of x s] Cons.prems(2) by auto
  have "\<exists>s'. for_each xs body s1 = Inr s' \<and> I s'"
  proof (rule Cons.IH)
    show "\<exists>t'. body y t = Inr t' \<and> I t'" if "y \<in> set xs" "I t" for y t
      using Cons.prems(1) [of y t] that by simp
    show "I s1" by (rule i)
  qed
  then show ?case by (simp add: b)
qed

lemma total_body_returns:
  assumes "purchase_orders res m \<noteq> None"
  shows "\<exists>acc'. total_body res p m acc = Inr acc'"
  using assms by (cases acc) (auto simp: total_body_def split: option.splits)

lemma product_total_body_returns:
  assumes "\<forall>m\<in>set (months self). purchase_orders res m \<noteq> None"
  shows "\<exists>res'. product_total_body self p res = Inr res'
    \<and> purchase_orders res' = purchase_orders res \<and> status res' = status res
    \<and> objective_value res' = objective_value res"
proof -
  have "\<exists>t. for_each (months self) (total_body res p) (0, 0, 0) = Inr t \<and> True"
  proof (rule for_each_exists)
    fix m and acc :: "int \<times> real \<times> real"
    assume "m \<in> set (months self)"
    then have "purchase_orders res m \<noteq> None" using assms by simp
    then show "\<exists>acc'. total_body res p m acc = Inr acc' \<and> True"
      using total_body_returns [of res m p acc] by simp
  qed simp
  then obtain t where "for_each (months self) (total_body res p) (0, 0, 0) = Inr t" by blast
  then show ?thesis
    by (cases t) (simp add: product_total_body_def)
qed

lemma total_loop_returns:
  assumes "\<forall>m\<in>set (months self). purchase_orders res m \<noteq> None"
  shows "\<exists>res'. for_each ps (product_total_body self) res = Inr res'
    \<and> (purchase_orders res' = purchase_orders res \<and> status res' = status res
       \<and> objective_value res' = objective_value res)"
proof (rule for_each_exists)
  fix p and t :: results
  assume "purchase_orders t = purchase_orders res \<and> status t = status res
       \<and> objective_value t = objective_value res"
  moreover from this have "\<forall>m\<in>set (months self). purchase_orders t m \<noteq> None"
    using assms by simp
  ultimately show "\<exists>t'. product_total_body self p t = Inr t'
    \<and> (purchase_orders t' = purchase_orders res \<and> status t' = status res
       \<and> objective_value t' = objective_value res)"
    using product_total_body_returns [of self t p] by auto
qed simp

lemma extract_results_answered:
  assumes "\<And>v. solution_value api (solver self) v = Inr (x v)"
    and "ObjectiveValue api (solver self) = Inr obj"
    and "\<forall>p\<in>set products. registered self (product_id p)"
    and "st = OPTIMAL \<or> st = FEASIBLE"
  shows "\<exists>res. extract_results api products st self = Inr res
    \<and> status res = (if st = OPTIMAL then ''OPTIMAL'' else ''FEASIBLE'')
    \<and> objective_value res = obj
    \<and> purchase_orders res =
        (\<lambda>k. if k \<in> set (months self)
             then Some (expected_orders x self products k Map.empty) else None)"
proof -
  let ?status = "if st = OPTIMAL then ''OPTIMAL'' else ''FEASIBLE''"
  let ?res0 = "\<lparr>status = ?status, objective_value = obj,
      purchase_orders = Map.empty, monthly_breakdown = Map.empty, product_totals = Map.empty\<rparr>"
  obtain res1 where
    l1: "for_each (months self) (month_body api self products) ?res0 = Inr res1"
    and po1: "purchase_orders res1 =
          (\<lambda>k. if k \<in> set (months self)
               then Some (expected_orders x self products k Map.empty)
               else purchase_orders ?res0 k)"
    and st1: "status res1 = status ?res0" "objective_value res1 = objective_value ?res0"
    using month_loop_answered [OF assms(1,3), of "months self" ?res0] by blast
  have "\<forall>m\<in>set (months self). purchase_orders res1 m \<noteq> None" by (simp add: po1)
  then obtain res2 where
    l2: "for_each products (product_total_body self) res1 = Inr res2"
    and po2: "purchase_orders res2 = purchase_orders res1"
    and st2: "status res2 = status res1" "objective_value res2 = objective_value res1"
    using total_loop_returns [of self res1 products] by blast
  have "extract_results api products st self = Inr res2"
    using assms(2,4) l1 l2 by (auto simp: extract_results_def Let_def)
  then show ?thesis
    by (intro exI [of _ res2]) (auto simp: po2 po1 st2 st1 fun_eq_iff)
qed

lemma optimize_scripted:
  assumes "st = OPTIMAL \<or> st = FEASIBLE"
  shows "\<exists>self res.
      build_model (scripted_solver st ov x) products (new_optimizer cfg empty_model) = Inr self
    \<and> months self = [1..planning_months cfg]
    \<and> (\<forall>p\<in>set products. registered self (product_id p))
    \<and> optimize (scripted_solver st ov x) cfg products = Inr (Results_dict res)
    \<and> status res = (if st = OPTIMAL then ''OPTIMAL'' else ''FEASIBLE'')
    \<and> objective_value res = ov
    \<and> purchase_orders res =
        (\<lambda>k. if k \<in> set [1..planning_months cfg]
             then Some (expected_orders x self products k Map.empty) else None)"
proof -
  let ?api = "scripted_solver st ov x"
  obtain self where
    b: "build_model ?api products (new_optimizer cfg empty_model) = Inr self"
    and ms: "months self = [1..planning_months cfg]"
    and r: "\<forall>p\<in>set products. registered self (product_id p)"
    using build_model_scripted [of st ov x products cfg] by blast
  have sv: "\<And>v. solution_value ?api (solver self) v = Inr (x v)"
    and o: "ObjectiveValue ?api (solver self) = Inr ov"
    and so: "Solve ?api (solver self) = Inr (st, solver self)"
    and cr: "CreateSolver ?api (solver_type cfg) = Some empty_model"
    by (simp_all add: scripted_solver_def)
  obtain res where
    e: "extract_results ?api products st self = Inr res"
    and s: "status res = (if st = OPTIMAL then ''OPTIMAL'' else ''FEASIBLE'')"
    and ob: "objective_value res = ov"
    and po: "purchase_orders res =
        (\<lambda>k. if k \<in> set (months self)
             then Some (expected_orders x self products k Map.empty) else None)"
    using extract_results_answered [OF sv o r assms] by blast
  have "try_body ?api products (new_optimizer cfg empty_model) = Inr res"
    by (simp add: try_body_def b so e)
  then have "optimize ?api cfg products = Inr (Results_dict res)"
    by (simp add: optimize_def cr)
  with b ms r s ob po show ?thesis by (auto simp: ms)
qed

lemma find_SomeD: "find P ys = Some q \<Longrightarrow> q \<in> set ys \<and> P q"
  by (induction ys) (simp_all split: if_splits)

lemma find_last_distinct:
  assumes "distinct (map f xs)" and "p \<in> set xs"
  shows "find (\<lambda>q. f q = f p) (rev xs) = Some p"
proof (cases "find (\<lambda>q. f q = f p) (rev xs)")
  case None
  then have "\<not> (\<exists>q. q \<in> set (rev xs) \<and> f q = f p)" by (simp add: find_None_iff)
  with assms(2) show ?thesis by auto
next
  case (Some q)
  from find_SomeD [OF Some] have "q \<in> set xs" and "f q = f p" by simp_all
  moreover have "inj_on f (set xs)" using assms(1) by (simp add: distinct_map)
  ultimately have "q = p" using assms(2) by (rule_tac inj_onD)
  with Some show ?thesis by simp
qed

lemma expected_orders_unknown:
  assumes "pid \<notin> product_id ` set products"
  shows "expected_orders x self products m Map.empty pid = None"
proof -
  have "find (\<lambda>p. product_id p = pid) (rev products) = None"
    using assms by (auto simp: find_None_iff)
  then show ?thesis by (simp add: expected_orders_def)
qed

lemma expected_orders_distinct:
  assumes "distinct (map product_id products)" and "p \<in> set products"
  shows "expected_orders x self products m Map.empty (product_id p) =
    (if 0 < read_back x self (product_id p) m
     then Some (order_of p (read_back x self (product_id p) m)) else None)"
  using find_last_distinct [OF assms] by (simp add: expected_orders_def)

text \<open>
  What extraction records. For an OPTIMAL or FEASIBLE solve, extraction reads each
  variable's value back with \<open>int\<close>, which cuts the fraction off (toward zero). The
  \<open>purchase_orders\<close> entry of a month records a product exactly when that quantity is
  positive, with its name, the quantity, the unit costs, total cost, total revenue, margin,
  weight and volume; an id that is no product's has no entry. Stated for distinct product
  ids (entries are keyed by id) and with the solver played by the scripted one, whose
  solution is \<open>x\<close>.
\<close>

theorem extraction_reads_back:
  assumes "st = OPTIMAL \<or> st = FEASIBLE" and "m \<in> set [1..planning_months cfg]"
    and "p \<in> set products" and "distinct (map product_id products)"
  shows "\<exists>self res by_product v.
      build_model (scripted_solver st ov x) products (new_optimizer cfg empty_model) = Inr self
    \<and> var_at self (product_id p) m = Inr v
    \<and> optimize (scripted_solver st ov x) cfg products = Inr (Results_dict res)
    \<and> purchase_orders res m = Some by_product
    \<and> py_int (x v) = (if 0 \<le> x v then \<lfloor>x v\<rfloor> else \<lceil>x v\<rceil>)
    \<and> by_product (product_id p) =
        (if 0 < py_int (x v) then
           Some \<lparr>order.name = product.name p, quantity = py_int (x v),
                 unit_wholesale = wholesale_price p,
                 order.total_cost = wholesale_price p * of_int (py_int (x v)),
                 unit_retail = retail_price p,
                 order.total_revenue = retail_price p * of_int (py_int (x v)),
                 order.margin = retail_price p * of_int (py_int (x v))
                                - wholesale_price p * of_int (py_int (x v)),
                 order.weight_kg = (weight_g p / 1000) * of_int (py_int (x v)),
                 order.volume_m3 = (size_cm3 p / 1000000) * of_int (py_int (x v))\<rparr>
         else None)
    \<and> (\<forall>pid. pid \<notin> product_id ` set products \<longrightarrow> by_product pid = None)"
proof -
  obtain self res where
    b: "build_model (scripted_solver st ov x) products (new_optimizer cfg empty_model) = Inr self"
    and ms: "months self = [1..planning_months cfg]"
    and r: "\<forall>p\<in>set products. registered self (product_id p)"
    and o: "optimize (scripted_solver st ov x) cfg products = Inr (Results_dict res)"
    and po: "purchase_orders res =
        (\<lambda>k. if k \<in> set [1..planning_months cfg]
             then Some (expected_orders x self products k Map.empty) else None)"
    using optimize_scripted [OF assms(1), of ov x products cfg] by blast
  let ?v = "handle self (product_id p) m"
  let ?by = "expected_orders x self products m Map.empty"
  have v: "var_at self (product_id p) m = Inr ?v"
    using r assms(2,3) ms by (simp add: var_at_registered)
  have pm: "purchase_orders res m = Some ?by" using assms(2) by (simp add: po)
  have q: "py_int (x ?v) = (if 0 \<le> x ?v then \<lfloor>x ?v\<rfloor> else \<lceil>x ?v\<rceil>)"
    by (simp add: py_int_def)
  have e: "?by (product_id p) =
        (if 0 < py_int (x ?v) then
           Some \<lparr>order.name = product.name p, quantity = py_int (x ?v),
                 unit_wholesale = wholesale_price p,
                 order.total_cost = wholesale_price p * of_int (py_int (x ?v)),
                 unit_retail = retail_price p,
                 order.total_revenue = retail_price p * of_int (py_int (x ?v)),
                 order.margin = retail_price p * of_int (py_int (x ?v))
                                - wholesale_price p * of_int (py_int (x ?v)),
                 order.weight_kg = (weight_g p / 1000) * of_int (py_int (x ?v)),
                 order.volume_m3 = (size_cm3 p / 1000000) * of_int (py_int (x ?v))\<rparr>
         else None)"
    by (simp add: expected_orders_distinct [OF assms(4,3)] read_back_def order_of_def Let_def)
  have u: "\<forall>pid. pid \<notin> product_id ` set products \<longrightarrow> ?by pid = None"
    by (simp add: expected_orders_unknown)
  from b v o pm q e u show ?thesis by blast
qed

lemma example_order_quantity:
  assumes "st = OPTIMAL \<or> st = FEASIBLE"
  shows "ordered_quantity
      (optimize (scripted_solver st ov (\<lambda>v. c)) example_config [example_product d]) 1 ''P1''
    = (if 0 < py_int c then Some (py_int c) else None)"
proof -
  let ?ps = "[example_product d]"
  obtain self :: "lp_model optimizer" and res where
    o: "optimize (scripted_solver st ov (\<lambda>v. c)) example_config ?ps = Inr (Results_dict res)"
    and po: "purchase_orders res =
        (\<lambda>k. if k \<in> set [1..planning_months example_config]
             then Some (expected_orders (\<lambda>v. c) self ?ps k Map.empty) else None)"
    using optimize_scripted [OF assms, of ov "\<lambda>v. c" ?ps example_config] by blast
  have n: "planning_months example_config = 1" by (simp add: example_config_def)
  have pid: "product_id (example_product d) = ''P1''" by (simp add: example_product_def)
  have "purchase_orders res 1 = Some (expected_orders (\<lambda>v. c) self ?ps 1 Map.empty)"
    by (simp add: po n upto_1_1)
  moreover have "map_option quantity (expected_orders (\<lambda>v. c) self ?ps 1 Map.empty ''P1'')
      = (if 0 < py_int c then Some (py_int c) else None)"
    by (simp add: expected_orders_def pid read_back_def order_of_def Let_def)
  ultimately show ?thesis by (simp add: ordered_quantity_def o)
qed

text \<open>
  C1. The read-back does not round to the nearest integer. In the specification's scenario
  (one product, one month) a solver value of 2.9999999, that is 3 less a floating
  tolerance, is recorded as the quantity 2, not 3; and a value of 0.9999999 leaves the
  product out of the month's orders, although the nearest integer is 1.
\<close>

theorem extraction_truncates:
  "ordered_quantity
     (optimize (scripted_solver OPTIMAL 895 (\<lambda>v. 29999999 / 10000000)) example_config
        [example_product 100]) 1 ''P1'' = Some 2
   \<and> ordered_quantity
     (optimize (scripted_solver OPTIMAL 0 (\<lambda>v. 9999999 / 10000000)) example_config
        [example_product 100]) 1 ''P1'' = None"
  by (simp add: example_order_quantity py_int_def)

theorem extraction_reads_back_witness:
  "\<exists>self res by_product v.
      build_model (scripted_solver OPTIMAL 895 (\<lambda>v. 100)) [example_product 100]
        (new_optimizer example_config empty_model) = Inr self
    \<and> var_at self ''P1'' 1 = Inr v
    \<and> optimize (scripted_solver OPTIMAL 895 (\<lambda>v. 100)) example_config [example_product 100]
        = Inr (Results_dict res)
    \<and> purchase_orders res 1 = Some by_product
    \<and> by_product ''P1'' =
        Some \<lparr>order.name = ''Product_1'', quantity = 100, unit_wholesale = 10,
              order.total_cost = 1000, unit_retail = 20, order.total_revenue = 2000,
              order.margin = 1000, order.weight_kg = 50, order.volume_m3 = 1 / 10\<rparr>"
proof -
  let ?p = "example_product 100"
  have st: "OPTIMAL = OPTIMAL \<or> OPTIMAL = FEASIBLE" by simp
  have n: "planning_months example_config = 1" by (simp add: example_config_def)
  have m: "(1::int) \<in> set [1..planning_months example_config]" by (simp add: n upto_1_1)
  have p: "?p \<in> set [?p]" by simp
  have d: "distinct (map product_id [?p])" by simp
  have pid: "product_id ?p = ''P1''" by (simp add: example_product_def)
  from extraction_reads_back [OF st m p d, of 895 "\<lambda>v. 100"]
  obtain self res by_product v where
    b: "build_model (scripted_solver OPTIMAL 895 (\<lambda>v. 100)) [?p]
        (new_optimizer example_config empty_model) = Inr self"
    and v: "var_at self ''P1'' 1 = Inr v"
    and o: "optimize (scripted_solver OPTIMAL 895 (\<lambda>v. 100)) example_config [?p]
        = Inr (Results_dict res)"
    and pm: "purchase_orders res 1 = Some by_product"
    and e: "by_product ''P1'' =
        Some \<lparr>order.name = ''Product_1'', quantity = 100, unit_wholesale = 10,
              order.total_cost = 1000, unit_retail = 20, order.total_revenue = 2000,
              order.margin = 1000, order.weight_kg = 50, order.volume_m3 = 1 / 10\<rparr>"
    by (auto simp: pid py_int_def example_product_def)
  from b v o pm e show ?thesis by blast
qed


section \<open>Properties of the public entry point\<close>

lemma is_Exception_iff: "is_Exception e \<longleftrightarrow> e \<noteq> KeyboardInterrupt"
  by (cases e) simp_all

lemma optimize_unavailable:
  "CreateSolver api (solver_type cfg) = None \<Longrightarrow>
   optimize api cfg products = Inr (Error_dict (''Solver '' @ solver_type cfg @ '' unavailable''))"
  by (simp add: optimize_def)

lemma optimize_raised:
  assumes "CreateSolver api (solver_type cfg) = Some s"
    and "try_body api products (new_optimizer cfg s) = Inl e"
  shows "optimize api cfg products =
    (if is_Exception e then Inr (Error_dict (str_exn e)) else Inl e)"
  using assms by (simp add: optimize_def)

lemma try_body_raised:
  assumes "raised_while_building api products self e"
  shows "try_body api products self = Inl e"
  using assms by (auto simp: raised_while_building_def try_body_def build_model_def)

text \<open>
  C5. Whatever the solver library does: when the configured engine is unavailable,
  \<open>optimize\<close> returns the status ERROR with a message; when variable, objective or
  constraint construction or the solve call raises an exception derived from
  \<open>Exception\<close>, it returns the status ERROR with that exception's message; a
  \<open>KeyboardInterrupt\<close> raised there propagates; and nothing but a \<open>KeyboardInterrupt\<close>
  ever leaves \<open>optimize\<close> as an exception.
\<close>

theorem optimize_boundary:
  "(CreateSolver api (solver_type cfg) = None \<longrightarrow>
      optimize api cfg products =
        Inr (Error_dict (''Solver '' @ solver_type cfg @ '' unavailable'')))
   \<and> (CreateSolver api (solver_type cfg) = Some s
        \<and> raised_while_building api products (new_optimizer cfg s) e \<longrightarrow>
      (is_Exception e \<longrightarrow> optimize api cfg products = Inr (Error_dict (str_exn e)))
      \<and> (e = KeyboardInterrupt \<longrightarrow> optimize api cfg products = Inl KeyboardInterrupt))
   \<and> (optimize api cfg products = Inl e' \<longrightarrow> e' = KeyboardInterrupt)
   \<and> (optimize api cfg products = Inr out \<and> status_of out \<noteq> ''ERROR'' \<longrightarrow>
        (\<exists>s res. CreateSolver api (solver_type cfg) = Some s
           \<and> try_body api products (new_optimizer cfg s) = Inr res \<and> out = Results_dict res))"
proof (intro conjI impI)
  assume "CreateSolver api (solver_type cfg) = None"
  then show "optimize api cfg products =
      Inr (Error_dict (''Solver '' @ solver_type cfg @ '' unavailable''))"
    by (rule optimize_unavailable)
next
  assume a: "CreateSolver api (solver_type cfg) = Some s
      \<and> raised_while_building api products (new_optimizer cfg s) e"
  then have t: "try_body api products (new_optimizer cfg s) = Inl e"
    by (simp add: try_body_raised)
  { assume "is_Exception e"
    then show "optimize api cfg products = Inr (Error_dict (str_exn e))"
      using a t by (simp add: optimize_raised) }
  { assume "e = KeyboardInterrupt"
    then show "optimize api cfg products = Inl KeyboardInterrupt"
      using a t by (simp add: optimize_raised) }
next
  assume "optimize api cfg products = Inl e'"
  then show "e' = KeyboardInterrupt"
    by (auto simp: optimize_def is_Exception_iff split: option.splits sum.splits if_splits)
next
  assume "optimize api cfg products = Inr out \<and> status_of out \<noteq> ''ERROR''"
  then show "\<exists>s res. CreateSolver api (solver_type cfg) = Some s
           \<and> try_body api products (new_optimizer cfg s) = Inr res \<and> out = Results_dict res"
    by (auto simp: optimize_def split: option.splits sum.splits if_splits)
qed

lemma create_variables_failing:
  "create_variables (failing_solver e) [example_product d]
     (new_optimizer example_config empty_model) = Inl e"
  by (simp add: create_variables_def months_def new_optimizer_def example_config_def upto.simps
     variable_body_def forecast_month_def float_pow_def failing_solver_def scripted_solver_def
     example_product_def example_forecast_def Let_def)

theorem optimize_boundary_witness:
  "optimize unavailable_solver example_config [example_product 100] =
     Inr (Error_dict ''Solver SCIP unavailable'')
   \<and> optimize (failing_solver (LibraryError ''no licence'')) example_config [example_product 100] =
     Inr (Error_dict ''no licence'')
   \<and> optimize (failing_solver KeyboardInterrupt) example_config [example_product 100] =
     Inl KeyboardInterrupt"
proof -
  let ?ps = "[example_product 100]"
  have u: "CreateSolver unavailable_solver (solver_type example_config) = None"
    by (simp add: unavailable_solver_def)
  have c: "CreateSolver (failing_solver e) (solver_type example_config) = Some empty_model" for e
    by (simp add: failing_solver_def scripted_solver_def)
  have r: "raised_while_building (failing_solver e) ?ps
      (new_optimizer example_config empty_model) e" for e
    by (simp add: raised_while_building_def create_variables_failing)
  have t: "solver_type example_config = ''SCIP''" by (simp add: example_config_def)
  from optimize_boundary [of unavailable_solver example_config ?ps] u
  have 1: "optimize unavailable_solver example_config ?ps =
      Inr (Error_dict (''Solver '' @ ''SCIP'' @ '' unavailable''))"
    by (simp only: t)
  from optimize_boundary [of "failing_solver (LibraryError ''no licence'')" example_config ?ps
      empty_model "LibraryError ''no licence''"] c r
  have 2: "optimize (failing_solver (LibraryError ''no licence'')) example_config ?ps =
      Inr (Error_dict ''no licence'')"
    by simp
  from optimize_boundary [of "failing_solver KeyboardInterrupt" example_config ?ps
      empty_model KeyboardInterrupt] c r
  have 3: "optimize (failing_solver KeyboardInterrupt) example_config ?ps = Inl KeyboardInterrupt"
    by simp
  from 1 2 3 show ?thesis by simp
qed

end
